theory Spec2Isabelle
  imports Main "HOL-Library.Word"
begin

section \<open>Python values, errors and the library interface\<close>

text \<open>
  The repository is dynamically typed Python. The values that flow through the audit
  log, the lineage records and the quarantine store are the JSON-like Python values:
  \<^verbatim>\<open>None\<close>, booleans, unbounded integers, floats, strings, lists and dictionaries
  with string keys. A float is carried as its 64 IEEE bits (no arithmetic is ever done
  on it here); a \<^verbatim>\<open>str\<close> is carried as the bytes of its UTF-8 encoding, so
  \<^verbatim>\<open>s.encode("utf-8")\<close> is the identity and a string is ASCII exactly when all
  its bytes are below 128; a dictionary is an association list in insertion order.
\<close>

datatype pyval =
    PNone
  | PBool bool
  | PInt int
  | PFloat "64 word"
  | PStr string
  | PList "pyval list"
  | PDict "(string \<times> pyval) list"

datatype error = TypeError | KeyError | OSError

text \<open>
  The functions of the Python standard library that the code calls and that are not
  part of the repository are parameters of the model:
  \<^verbatim>\<open>hashlib.sha256(data).digest()\<close>,
  \<^verbatim>\<open>hmac.new(key, msg, hashlib.sha256).digest()\<close> and
  \<^verbatim>\<open>json.dumps(v, sort_keys=True).encode("utf-8")\<close>.
\<close>

record lib =
  sha256 :: "string \<Rightarrow> string"
  hmac_sha256 :: "string \<Rightarrow> string \<Rightarrow> string"
  json_dumps_sorted :: "pyval \<Rightarrow> string"

text \<open>\<^verbatim>\<open>hexdigest()\<close>: two lower-case hexadecimal digits per byte.\<close>

definition hexdigit :: "nat \<Rightarrow> char" where
  "hexdigit n = ''0123456789abcdef'' ! (n mod 16)"

definition hex_byte :: "char \<Rightarrow> string" where
  "hex_byte c = [hexdigit ((of_char c :: nat) div 16), hexdigit ((of_char c :: nat) mod 16)]"

definition hexdigest :: "string \<Rightarrow> string" where
  "hexdigest bs = concat (map hex_byte bs)"

definition is_ascii :: "string \<Rightarrow> bool" where
  "is_ascii s = list_all (\<lambda>c. (of_char c :: nat) < 128) s"

text \<open>Truth value of a Python value, as \<^verbatim>\<open>if x:\<close> and \<^verbatim>\<open>x or y\<close> test it.\<close>

fun truthy :: "pyval \<Rightarrow> bool" where
  "truthy PNone = False"
| "truthy (PBool b) = b"
| "truthy (PInt i) = (i \<noteq> 0)"
| "truthy (PFloat w) = (take_bit 63 w \<noteq> 0)"
| "truthy (PStr s) = (s \<noteq> [])"
| "truthy (PList xs) = (xs \<noteq> [])"
| "truthy (PDict kvs) = (kvs \<noteq> [])"

definition py_or :: "pyval \<Rightarrow> pyval \<Rightarrow> pyval" where
  "py_or a b = (if truthy a then a else b)"

text \<open>\<^verbatim>\<open>d[k] = v\<close>: an existing key keeps its place, a new key goes last.\<close>

fun setitem :: "string \<Rightarrow> pyval \<Rightarrow> (string \<times> pyval) list \<Rightarrow> (string \<times> pyval) list" where
  "setitem k v [] = [(k, v)]"
| "setitem k v ((k', v') # kvs) =
     (if k' = k then (k, v) # kvs else (k', v') # setitem k v kvs)"

definition dict_set :: "pyval \<Rightarrow> string \<Rightarrow> pyval \<Rightarrow> pyval" where
  "dict_set d k v = (case d of PDict kvs \<Rightarrow> PDict (setitem k v kvs) | _ \<Rightarrow> d)"

definition dict_get :: "pyval \<Rightarrow> string \<Rightarrow> pyval option" where
  "dict_get d k = (case d of PDict kvs \<Rightarrow> map_of kvs k | _ \<Rightarrow> None)"

definition opt_str :: "string option \<Rightarrow> pyval" where
  "opt_str h = (case h of None \<Rightarrow> PNone | Some s \<Rightarrow> PStr s)"

section \<open>security/audit/audit\_log.py\<close>

definition sha256_hex :: "lib \<Rightarrow> string \<Rightarrow> string" where
  "sha256_hex L data = hexdigest (sha256 L data)"

record AuditLogEntry =
  a_index :: int
  a_timestamp :: string
  a_event_type :: string
  a_document_id :: string
  a_stage :: string
  a_status :: string
  a_reason :: string
  a_details :: pyval
  a_prev_hash :: "string option"
  a_entry_hash :: "string option"

text \<open>\<^verbatim>\<open>dataclasses.asdict(entry)\<close>: every field, in declaration order.\<close>

definition asdict :: "AuditLogEntry \<Rightarrow> pyval" where
  "asdict e = PDict
     [(''index'', PInt (a_index e)),
      (''timestamp'', PStr (a_timestamp e)),
      (''event_type'', PStr (a_event_type e)),
      (''document_id'', PStr (a_document_id e)),
      (''stage'', PStr (a_stage e)),
      (''status'', PStr (a_status e)),
      (''reason'', PStr (a_reason e)),
      (''details'', a_details e),
      (''prev_hash'', opt_str (a_prev_hash e)),
      (''entry_hash'', opt_str (a_entry_hash e))]"

text \<open>
  The log file is a JSON-lines file opened in append mode. It is carried as the list of
  the pieces appended to it: \<open>Line e\<close> stands for the whole line
  \<^verbatim>\<open>json.dumps(e, ensure_ascii=False) + "\n"\<close>, and \<open>Torn e\<close> for a proper prefix of
  that line, left behind by a write that failed after part of the line had reached the
  file. What a failed append leaves in the file is one of three things: nothing
  (\<^verbatim>\<open>open\<close> refused, or no byte was written), part of the line, or the whole line
  (the error came when the file was closed).
\<close>

datatype logline = Line pyval | Torn pyval

datatype residue = Left_nothing | Left_part | Left_whole

text \<open>The state of an \<^verbatim>\<open>AuditLog\<close> object.\<close>

record AuditLog =
  path :: string
  last_hash :: "string option"
  counter :: int

definition AuditLog_init :: "string \<Rightarrow> AuditLog" where
  "AuditLog_init p = \<lparr>path = p, last_hash = None, counter = 0\<rparr>"

definition compute_entry_hash :: "lib \<Rightarrow> pyval \<Rightarrow> string" where
  "compute_entry_hash L entry_dict = sha256_hex L (json_dumps_sorted L entry_dict)"

text \<open>
  Lines 54 to 68 of \<^verbatim>\<open>write_event\<close>: the entry, its dictionary, and the dictionary
  with the digest stored under \<^verbatim>\<open>entry_hash\<close>. \<open>ts\<close> is what
  \<^verbatim>\<open>time.strftime("%Y-%m-%dT%H:%M:%SZ", time.gmtime())\<close> returns at the call.
\<close>

definition new_entry ::
  "AuditLog \<Rightarrow> string \<Rightarrow> string \<Rightarrow> string \<Rightarrow> string \<Rightarrow> string \<Rightarrow> string \<Rightarrow> pyval \<Rightarrow> AuditLogEntry" where
  "new_entry al ts ev doc stg sts rsn det =
     \<lparr>a_index = counter al, a_timestamp = ts, a_event_type = ev, a_document_id = doc,
      a_stage = stg, a_status = sts, a_reason = rsn, a_details = det,
      a_prev_hash = last_hash al, a_entry_hash = None\<rparr>"

definition hashed_entry_dict :: "lib \<Rightarrow> pyval \<Rightarrow> pyval" where
  "hashed_entry_dict L entry_dict =
     dict_set entry_dict ''entry_hash'' (PStr (compute_entry_hash L entry_dict))"

text \<open>
  \<^verbatim>\<open>write_event\<close>. \<open>ok\<close> tells whether \<^verbatim>\<open>open(self.path, "a")\<close> and the buffered
  write, flushed when the \<^verbatim>\<open>with\<close> block closes the file, succeed. When they do not,
  the \<^verbatim>\<open>OSError\<close> leaves the function after the two assignments to
  \<^verbatim>\<open>self._last_hash\<close> and \<^verbatim>\<open>self._counter\<close> that precede the \<^verbatim>\<open>with\<close> block, and
  \<open>left\<close> tells what had reached the file by then. The result is the outcome and the
  state left behind.
\<close>

definition write_event ::
  "lib \<Rightarrow> string \<Rightarrow> bool \<Rightarrow> residue \<Rightarrow> string \<Rightarrow> string \<Rightarrow> string \<Rightarrow> string \<Rightarrow> string \<Rightarrow> pyval \<Rightarrow>
   AuditLog \<times> logline list \<Rightarrow> (error + unit) \<times> (AuditLog \<times> logline list)" where
  "write_event L ts ok left ev doc stg sts rsn det s =
     (case s of (al, logfile) \<Rightarrow>
        let entry = new_entry al ts ev doc stg sts rsn det;
            entry_dict = hashed_entry_dict L (asdict entry);
            al' = al\<lparr>last_hash := Some (compute_entry_hash L (asdict entry)),
                     counter := counter al + 1\<rparr>
        in if ok then (Inr (), (al', logfile @ [Line entry_dict]))
           else (Inl OSError,
                 (al', case left of
                         Left_nothing \<Rightarrow> logfile
                       | Left_part \<Rightarrow> logfile @ [Torn entry_dict]
                       | Left_whole \<Rightarrow> logfile @ [Line entry_dict])))"

text \<open>
  A sequence of \<^verbatim>\<open>write_event\<close> calls on one log. A call carries the arguments, the
  clock reading and the outcome of its append; a caller that catches the error of a
  failed append goes on with the state the failed call left.
\<close>

record call =
  c_ts :: string
  c_ok :: bool
  c_left :: residue
  c_event_type :: string
  c_document_id :: string
  c_stage :: string
  c_status :: string
  c_reason :: string
  c_details :: pyval

definition write_call ::
  "lib \<Rightarrow> call \<Rightarrow> AuditLog \<times> logline list \<Rightarrow> (error + unit) \<times> (AuditLog \<times> logline list)" where
  "write_call L c s =
     write_event L (c_ts c) (c_ok c) (c_left c) (c_event_type c) (c_document_id c) (c_stage c)
       (c_status c) (c_reason c) (c_details c) s"

fun write_events ::
  "lib \<Rightarrow> call list \<Rightarrow> AuditLog \<times> logline list \<Rightarrow> AuditLog \<times> logline list" where
  "write_events L [] s = s"
| "write_events L (c # cs) s = write_events L cs (snd (write_call L c s))"

text \<open>
  A hash chain that starts at index \<open>n\<close> after an entry with digest \<open>h\<close>
  (\<open>None\<close> before the first entry).
\<close>

fun chain_from :: "int \<Rightarrow> string option \<Rightarrow> pyval list \<Rightarrow> bool" where
  "chain_from n h [] = True"
| "chain_from n h (e # es) =
     (dict_get e ''index'' = Some (PInt n) \<and>
      dict_get e ''prev_hash'' = Some (opt_str h) \<and>
      (case dict_get e ''entry_hash'' of
         Some (PStr h') \<Rightarrow> chain_from (n + 1) (Some h') es
       | _ \<Rightarrow> False))"

text \<open>A field of a piece of the log file: only a whole line can be read back.\<close>

definition line_field :: "logline \<Rightarrow> string \<Rightarrow> pyval option" where
  "line_field l k = (case l of Line e \<Rightarrow> dict_get e k | Torn e \<Rightarrow> None)"

section \<open>security/lineage/lineage\_chain.py\<close>

text \<open>
  \<^verbatim>\<open>LineageRecord\<close> is a dataclass: its constructor stores whatever values it is
  given and checks no type, so every field holds a Python value.
\<close>

record LineageRecord =
  document_id :: pyval
  version :: pyval
  content_hash :: pyval
  prev_hash :: pyval
  created_at :: pyval
  author :: pyval
  source :: pyval
  signature :: pyval

definition compute_content_hash :: "lib \<Rightarrow> string \<Rightarrow> string" where
  "compute_content_hash L content = sha256_hex L content"

definition core_payload :: "LineageRecord \<Rightarrow> pyval" where
  "core_payload r = PDict
     [(''document_id'', document_id r),
      (''version'', version r),
      (''content_hash'', content_hash r),
      (''prev_hash'', prev_hash r),
      (''created_at'', created_at r),
      (''author'', author r),
      (''source'', source r)]"

definition core_payload_bytes :: "lib \<Rightarrow> LineageRecord \<Rightarrow> string" where
  "core_payload_bytes L r = json_dumps_sorted L (core_payload r)"

text \<open>\<open>now\<close> is what \<^verbatim>\<open>datetime.utcnow().isoformat()\<close> returns at the call.\<close>

definition create_lineage_record ::
  "lib \<Rightarrow> string \<Rightarrow> string \<Rightarrow> string \<Rightarrow> string \<Rightarrow> string \<Rightarrow> string option \<Rightarrow> int \<Rightarrow> LineageRecord" where
  "create_lineage_record L now doc content auth src prev ver =
     \<lparr>document_id = PStr doc, version = PInt ver,
      content_hash = PStr (compute_content_hash L content),
      prev_hash = opt_str prev, created_at = PStr (now @ ''Z''),
      author = PStr auth, source = PStr src, signature = PNone\<rparr>"

text \<open>\<^verbatim>\<open>record.__dict__\<close>: the eight fields in declaration order.\<close>

definition record_dict :: "LineageRecord \<Rightarrow> pyval" where
  "record_dict r = PDict
     [(''document_id'', document_id r),
      (''version'', version r),
      (''content_hash'', content_hash r),
      (''prev_hash'', prev_hash r),
      (''created_at'', created_at r),
      (''author'', author r),
      (''source'', source r),
      (''signature'', signature r)]"

text \<open>
  \<^verbatim>\<open>LineageRecord(**d)\<close>: a \<^verbatim>\<open>TypeError\<close> when a key is not a parameter of the
  constructor or a parameter without default is missing; \<^verbatim>\<open>signature\<close> defaults to
  \<^verbatim>\<open>None\<close>.
\<close>

definition lineage_fields :: "string list" where
  "lineage_fields = [''document_id'', ''version'', ''content_hash'', ''prev_hash'',
     ''created_at'', ''author'', ''source'', ''signature'']"

definition required_fields :: "string list" where
  "required_fields = [''document_id'', ''version'', ''content_hash'', ''prev_hash'',
     ''created_at'', ''author'', ''source'']"

definition kwarg :: "(string \<times> pyval) list \<Rightarrow> string \<Rightarrow> pyval" where
  "kwarg kvs k = (case map_of kvs k of Some v \<Rightarrow> v | None \<Rightarrow> PNone)"

definition LineageRecord_init :: "(string \<times> pyval) list \<Rightarrow> error + LineageRecord" where
  "LineageRecord_init kvs =
     (if list_all (\<lambda>k. k \<in> set lineage_fields) (map fst kvs) \<and>
         list_all (\<lambda>k. k \<in> set (map fst kvs)) required_fields
      then Inr \<lparr>document_id = kwarg kvs ''document_id'', version = kwarg kvs ''version'',
                content_hash = kwarg kvs ''content_hash'', prev_hash = kwarg kvs ''prev_hash'',
                created_at = kwarg kvs ''created_at'', author = kwarg kvs ''author'',
                source = kwarg kvs ''source'', signature = kwarg kvs ''signature''\<rparr>
      else Inl TypeError)"

section \<open>security/lineage/signer.py\<close>

record HMACSigner =
  secret_key :: string

definition HMACSigner_init :: "string \<Rightarrow> HMACSigner" where
  "HMACSigner_init k = \<lparr>secret_key = k\<rparr>"

definition sign :: "lib \<Rightarrow> HMACSigner \<Rightarrow> string \<Rightarrow> string" where
  "sign L s content = hexdigest (hmac_sha256 L (secret_key s) content)"

text \<open>
  \<^verbatim>\<open>hmac.compare_digest(a, b)\<close> with a \<^verbatim>\<open>str\<close> as \<open>a\<close>: it compares two
  ASCII-only strings and raises \<^verbatim>\<open>TypeError\<close> when \<open>b\<close> is not a \<^verbatim>\<open>str\<close> or
  when either string has a non-ASCII character.
\<close>

definition compare_digest :: "string \<Rightarrow> pyval \<Rightarrow> error + bool" where
  "compare_digest a b =
     (case b of
        PStr s \<Rightarrow> if is_ascii a \<and> is_ascii s then Inr (a = s) else Inl TypeError
      | _ \<Rightarrow> Inl TypeError)"

definition verify :: "lib \<Rightarrow> HMACSigner \<Rightarrow> string \<Rightarrow> pyval \<Rightarrow> error + bool" where
  "verify L s content sg = compare_digest (sign L s content) sg"

section \<open>security/lineage/verify.py\<close>

record LineageVerifier =
  signer :: HMACSigner

definition verify_content_hash :: "lib \<Rightarrow> LineageRecord \<Rightarrow> string \<Rightarrow> bool" where
  "verify_content_hash L r content = (PStr (compute_content_hash L content) = content_hash r)"

definition verify_signature :: "lib \<Rightarrow> LineageVerifier \<Rightarrow> LineageRecord \<Rightarrow> error + bool" where
  "verify_signature L V r =
     (if signature r = PNone then Inr False
      else verify L (signer V) (core_payload_bytes L r) (signature r))"

definition verify_record ::
  "lib \<Rightarrow> LineageVerifier \<Rightarrow> LineageRecord \<Rightarrow> string \<Rightarrow> error + (bool \<times> string)" where
  "verify_record L V r content =
     (if \<not> verify_content_hash L r content then Inr (False, ''Content hash mismatch.'')
      else case verify_signature L V r of
             Inl e \<Rightarrow> Inl e
           | Inr sig_ok \<Rightarrow>
               if \<not> sig_ok then Inr (False, ''Invalid signature.'')
               else Inr (True, ''Lineage and integrity verified.''))"

text \<open>\<^verbatim>\<open>_sign_lineage_record\<close> of the simulation: sign the core payload, attach.\<close>

definition sign_lineage_record :: "lib \<Rightarrow> HMACSigner \<Rightarrow> LineageRecord \<Rightarrow> LineageRecord" where
  "sign_lineage_record L s r = r\<lparr>signature := PStr (sign L s (core_payload_bytes L r))\<rparr>"

section \<open>security/quarantine/quarantine\_manager.py\<close>

text \<open>
  The file system under the quarantine directory: the directories made and the files
  written. A file written by \<^verbatim>\<open>json.dump\<close> is carried as the value it encodes.
\<close>

datatype fcontent = Text string | Json pyval

record fs =
  dirs :: "string set"
  files :: "string \<rightharpoonup> fcontent"

text \<open>\<^verbatim>\<open>os.path.join(a, b)\<close> of \<^verbatim>\<open>posixpath\<close>, for two components.\<close>

definition os_path_join :: "string \<Rightarrow> string \<Rightarrow> string" where
  "os_path_join a b =
     (if b \<noteq> [] \<and> hd b = CHR ''/'' then b
      else if a = [] \<or> last a = CHR ''/'' then a @ b
      else a @ ''/'' @ b)"

definition safe_id :: "string \<Rightarrow> string" where
  "safe_id doc = map (\<lambda>c. if c = CHR '' '' then CHR ''_'' else c) doc"

record QuarantineManager =
  quarantine_dir :: string

text \<open>\<^verbatim>\<open>__init__\<close> makes the quarantine directory.\<close>

definition QuarantineManager_init :: "string \<Rightarrow> fs \<Rightarrow> QuarantineManager \<times> fs" where
  "QuarantineManager_init d f = (\<lparr>quarantine_dir = d\<rparr>, f\<lparr>dirs := insert d (dirs f)\<rparr>)"

text \<open>
  \<^verbatim>\<open>_bundle_path\<close>: \<open>ts\<close> is what
  \<^verbatim>\<open>datetime.utcnow().strftime("%Y%m%dT%H%M%SZ")\<close> returns at the call.
\<close>

definition mk_bundle_path :: "QuarantineManager \<Rightarrow> string \<Rightarrow> string \<Rightarrow> string" where
  "mk_bundle_path Q ts doc = os_path_join (quarantine_dir Q) (ts @ ''_'' @ safe_id doc)"

definition write_text :: "string \<Rightarrow> string \<Rightarrow> fs \<Rightarrow> fs" where
  "write_text p content f = f\<lparr>files := (files f)(p \<mapsto> Text content)\<rparr>"

definition write_json :: "string \<Rightarrow> pyval \<Rightarrow> fs \<Rightarrow> fs" where
  "write_json p d f = f\<lparr>files := (files f)(p \<mapsto> Json d)\<rparr>"

text \<open>
  \<^verbatim>\<open>save_evidence_bundle\<close>. \<open>ok\<close> tells whether the storage accepts the bundle; when it
  does not, \<^verbatim>\<open>os.makedirs\<close> in \<^verbatim>\<open>_bundle_path\<close> raises and nothing is written.
\<close>

definition save_evidence_bundle ::
  "QuarantineManager \<Rightarrow> string \<Rightarrow> bool \<Rightarrow> string \<Rightarrow> string \<Rightarrow> string \<Rightarrow> pyval \<Rightarrow> pyval \<Rightarrow> pyval \<Rightarrow>
   fs \<Rightarrow> (error + string) \<times> fs" where
  "save_evidence_bundle Q ts ok doc content rsn lineage scores metadata f =
     (if \<not> ok then (Inl OSError, f)
      else
        let bp = mk_bundle_path Q ts doc;
            f0 = f\<lparr>dirs := insert bp (dirs f)\<rparr>;
            f1 = write_text (os_path_join bp ''content.txt'') content f0;
            f2 = write_text (os_path_join bp ''reason.txt'') rsn f1;
            f3 = (if truthy lineage
                  then write_json (os_path_join bp ''lineage_record.json'') lineage f2 else f2);
            f4 = (if truthy scores
                  then write_json (os_path_join bp ''detection_scores.json'') scores f3 else f3);
            f5 = (if truthy metadata
                  then write_json (os_path_join bp ''metadata.json'') metadata f4 else f4)
        in (Inr bp, f5))"

section \<open>security/pipeline/rag\_security\_pipeline.py\<close>

text \<open>
  The \<^verbatim>\<open>lineage_record\<close> argument is dynamically typed: a \<^verbatim>\<open>LineageRecord\<close>
  instance, or any other value (\<^verbatim>\<open>None\<close> is \<open>LValue PNone\<close>).
\<close>

datatype lineage_input = LRecord LineageRecord | LValue pyval

definition normalize_lineage_record :: "lineage_input \<Rightarrow> LineageRecord option" where
  "normalize_lineage_record lineage =
     (case lineage of
        LRecord r \<Rightarrow> Some r
      | LValue (PDict kvs) \<Rightarrow>
          (case LineageRecord_init kvs of Inr r \<Rightarrow> Some r | Inl e \<Rightarrow> None)
      | LValue v \<Rightarrow> None)"

text \<open>The raw lineage input as it is logged and stored when it could not be normalized.\<close>

definition raw_lineage :: "lineage_input \<Rightarrow> pyval" where
  "raw_lineage lineage = (case lineage of LValue v \<Rightarrow> v | LRecord r \<Rightarrow> record_dict r)"

record verdict =
  status :: string
  reason :: string
  bundle_path :: "string option"
  semantic_scores :: pyval

record pipeline =
  lineage_verifier :: LineageVerifier
  quarantine_manager :: QuarantineManager

text \<open>
  What one run of \<^verbatim>\<open>process_document\<close> reads from its surroundings: the clock and
  the outcome of the append (success; if not, what it left in the file) when the entry
  with a given index is written, the clock and the outcome of the storage when a bundle
  is saved.
\<close>

record env =
  audit_ts :: "int \<Rightarrow> string"
  audit_ok :: "int \<Rightarrow> bool"
  audit_left :: "int \<Rightarrow> residue"
  q_ts :: string
  q_ok :: bool

record world =
  audit :: AuditLog
  logfile :: "logline list"
  qfs :: fs

definition audit_write ::
  "lib \<Rightarrow> env \<Rightarrow> string \<Rightarrow> string \<Rightarrow> string \<Rightarrow> string \<Rightarrow> string \<Rightarrow> pyval \<Rightarrow> world \<Rightarrow> (error + unit) \<times> world" where
  "audit_write L E ev doc stg sts rsn det w =
     (case write_event L (audit_ts E (counter (audit w))) (audit_ok E (counter (audit w)))
             (audit_left E (counter (audit w))) ev doc stg sts rsn det (audit w, logfile w) of
        (r, (al, lf)) \<Rightarrow> (r, w\<lparr>audit := al, logfile := lf\<rparr>))"

definition quarantine_save ::
  "pipeline \<Rightarrow> env \<Rightarrow> string \<Rightarrow> string \<Rightarrow> string \<Rightarrow> pyval \<Rightarrow> pyval \<Rightarrow> pyval \<Rightarrow> world \<Rightarrow> (error + string) \<times> world" where
  "quarantine_save P E doc content rsn lineage scores metadata w =
     (case save_evidence_bundle (quarantine_manager P) (q_ts E) (q_ok E)
             doc content rsn lineage scores metadata (qfs w) of
        (r, f) \<Rightarrow> (r, w\<lparr>qfs := f\<rparr>))"

text \<open>\<^verbatim>\<open>semantic_result["is_suspicious"]\<close> used as a condition.\<close>

definition is_suspicious :: "pyval \<Rightarrow> error + bool" where
  "is_suspicious semantic_result =
     (case semantic_result of
        PDict kvs \<Rightarrow> (case map_of kvs ''is_suspicious'' of
                        None \<Rightarrow> Inl KeyError
                      | Some v \<Rightarrow> Inr (truthy v))
      | _ \<Rightarrow> Inl TypeError)"

text \<open>An audit event followed by a quarantine bundle and the quarantined verdict.\<close>

definition quarantine_exit ::
  "lib \<Rightarrow> pipeline \<Rightarrow> env \<Rightarrow> string \<Rightarrow> string \<Rightarrow>
   string \<Rightarrow> string \<Rightarrow> string \<Rightarrow> pyval \<Rightarrow>
   string \<Rightarrow> pyval \<Rightarrow> pyval \<Rightarrow> pyval \<Rightarrow>
   string \<Rightarrow> pyval \<Rightarrow> world \<Rightarrow> (error + verdict) \<times> world" where
  "quarantine_exit L P E doc content ev stg audit_reason det
       bundle_reason lineage scores metadata verdict_reason verdict_scores w =
     (case audit_write L E ev doc stg ''quarantined'' audit_reason det w of
        (Inl e, w1) \<Rightarrow> (Inl e, w1)
      | (Inr u, w1) \<Rightarrow>
          (case quarantine_save P E doc content bundle_reason lineage scores metadata w1 of
             (Inl e, w2) \<Rightarrow> (Inl e, w2)
           | (Inr bp, w2) \<Rightarrow>
               (Inr \<lparr>status = ''quarantined'', reason = verdict_reason,
                     bundle_path = Some bp, semantic_scores = verdict_scores\<rparr>, w2)))"

text \<open>STEP 2 (semantic) and the final accept. \<open>detect\<close> is the scorer.\<close>

definition semantic_step ::
  "lib \<Rightarrow> (string \<Rightarrow> pyval) \<Rightarrow> pipeline \<Rightarrow> env \<Rightarrow> string \<Rightarrow> string \<Rightarrow>
   LineageRecord option \<Rightarrow> pyval \<Rightarrow> world \<Rightarrow> (error + verdict) \<times> world" where
  "semantic_step L detect P E doc content normalized metadata w =
     (let semantic_result = detect content in
      case is_suspicious semantic_result of
        Inl e \<Rightarrow> (Inl e, w)
      | Inr True \<Rightarrow>
          quarantine_exit L P E doc content
            ''semantic_fail'' ''semantic'' ''Semantic anomaly detected''
            (PDict [(''scores'', semantic_result)])
            ''Semantic anomaly detected.''
            (case normalized of Some r \<Rightarrow> record_dict r | None \<Rightarrow> PNone)
            semantic_result
            (py_or metadata (PDict [(''stage'', PStr ''semantic'')]))
            ''Semantic anomaly.'' semantic_result w
      | Inr False \<Rightarrow>
          (case audit_write L E ''semantic_ok'' doc ''semantic'' ''accepted'' ''Semantic clean''
                  (PDict [(''scores'', semantic_result)]) w of
             (Inl e, w1) \<Rightarrow> (Inl e, w1)
           | (Inr u, w1) \<Rightarrow>
               (case audit_write L E ''accept'' doc ''pipeline_end'' ''accepted''
                       ''Document fully clean'' (PDict [(''scores'', semantic_result)]) w1 of
                  (Inl e, w2) \<Rightarrow> (Inl e, w2)
                | (Inr u', w2) \<Rightarrow>
                    (Inr \<lparr>status = ''accepted'', reason = ''Clean document.'',
                          bundle_path = None, semantic_scores = semantic_result\<rparr>, w2))))"

text \<open>STEP 1 (lineage verify), entered with the normalized record if there is one.\<close>

definition lineage_step ::
  "lib \<Rightarrow> (string \<Rightarrow> pyval) \<Rightarrow> pipeline \<Rightarrow> env \<Rightarrow> string \<Rightarrow> string \<Rightarrow>
   LineageRecord option \<Rightarrow> pyval \<Rightarrow> world \<Rightarrow> (error + verdict) \<times> world" where
  "lineage_step L detect P E doc content normalized metadata w =
     (case normalized of
        None \<Rightarrow> semantic_step L detect P E doc content normalized metadata w
      | Some r \<Rightarrow>
          (case verify_record L (lineage_verifier P) r content of
             Inl e \<Rightarrow> (Inl e, w)
           | Inr (False, rsn) \<Rightarrow>
               quarantine_exit L P E doc content
                 ''lineage_fail'' ''lineage'' rsn
                 (PDict [(''lineage_record'', record_dict r)])
                 (''Lineage/Integrity failed: '' @ rsn)
                 (record_dict r) PNone
                 (py_or metadata (PDict [(''stage'', PStr ''lineage'')]))
                 rsn PNone w
           | Inr (True, rsn) \<Rightarrow>
               (case audit_write L E ''lineage_ok'' doc ''lineage'' ''accepted'' ''Lineage valid''
                       (PDict [(''version'', version r)]) w of
                  (Inl e, w1) \<Rightarrow> (Inl e, w1)
                | (Inr u, w1) \<Rightarrow>
                    semantic_step L detect P E doc content normalized metadata w1)))"

definition process_document ::
  "lib \<Rightarrow> (string \<Rightarrow> pyval) \<Rightarrow> pipeline \<Rightarrow> env \<Rightarrow> string \<Rightarrow> string \<Rightarrow>
   lineage_input \<Rightarrow> pyval \<Rightarrow> world \<Rightarrow> (error + verdict) \<times> world" where
  "process_document L detect P E doc content lineage metadata w =
     (case audit_write L E ''ingest_start'' doc ''start'' ''processing''
             ''Document ingest started''
             (PDict [(''metadata'', py_or metadata (PDict []))]) w of
        (Inl e, w1) \<Rightarrow> (Inl e, w1)
      | (Inr u, w1) \<Rightarrow>
          (let normalized = normalize_lineage_record lineage in
           if lineage \<noteq> LValue PNone \<and> normalized = None
           then quarantine_exit L P E doc content
                  ''lineage_fail'' ''lineage_deserialization'' ''Invalid lineage structure''
                  (PDict [(''raw_lineage'', raw_lineage lineage)])
                  ''Lineage record deserialization failure.''
                  (raw_lineage lineage) PNone
                  (py_or metadata (PDict [(''stage'', PStr ''lineage_deserialization'')]))
                  ''Invalid lineage record structure.'' PNone w1
           else lineage_step L detect P E doc content normalized metadata w1))"

section \<open>A concrete library for evaluating examples\<close>

text \<open>
  The examples below are evaluated with small stand-ins for the three library functions.
  Nothing proved for an arbitrary \<open>L\<close> depends on them.
\<close>

fun demo_dumps :: "pyval \<Rightarrow> string" where
  "demo_dumps PNone = ''null''"
| "demo_dumps (PBool b) = (if b then ''true'' else ''false'')"
| "demo_dumps (PInt i) = replicate (nat \<bar>i\<bar>) (CHR ''1'')"
| "demo_dumps (PFloat w) = ''f''"
| "demo_dumps (PStr s) = s"
| "demo_dumps (PList xs) = concat (map demo_dumps xs)"
| "demo_dumps (PDict kvs) = concat (map (\<lambda>kv. fst kv @ demo_dumps (snd kv)) kvs)"

definition demo_lib :: lib where
  "demo_lib = \<lparr>sha256 = (\<lambda>s. [char_of (length s)]),
     hmac_sha256 = (\<lambda>k m. [char_of (length k), char_of (length m)]),
     json_dumps_sorted = demo_dumps\<rparr>"

definition demo_calls :: "call list" where
  "demo_calls =
     [\<lparr>c_ts = ''2025-01-01T00:00:00Z'', c_ok = True, c_left = Left_nothing, c_event_type = ''ingest_start'',
       c_document_id = ''doc-1'', c_stage = ''start'', c_status = ''processing'',
       c_reason = ''Document ingest started'', c_details = PDict [(''metadata'', PDict [])]\<rparr>,
      \<lparr>c_ts = ''2025-01-01T00:00:01Z'', c_ok = True, c_left = Left_nothing, c_event_type = ''semantic_ok'',
       c_document_id = ''doc-1'', c_stage = ''semantic'', c_status = ''accepted'',
       c_reason = ''Semantic clean'', c_details = PDict []\<rparr>]"

definition demo_calls_retry :: "call list" where
  "demo_calls_retry =
     [\<lparr>c_ts = ''2025-01-01T00:00:00Z'', c_ok = False, c_left = Left_nothing,
       c_event_type = ''ingest_start'', c_document_id = ''doc-1'', c_stage = ''start'',
       c_status = ''processing'', c_reason = ''Document ingest started'',
       c_details = PDict [(''metadata'', PDict [])]\<rparr>,
      \<lparr>c_ts = ''2025-01-01T00:00:01Z'', c_ok = True, c_left = Left_nothing,
       c_event_type = ''ingest_start'', c_document_id = ''doc-1'', c_stage = ''start'',
       c_status = ''processing'', c_reason = ''Document ingest started'',
       c_details = PDict [(''metadata'', PDict [])]\<rparr>]"

section \<open>Notions used in the statements\<close>

text \<open>
  The entry that \<open>audit_write\<close> appends in a given world, the (event type, stage) pairs
  of a list of pieces of the log file, and the pieces a run added to the log file.
\<close>

definition audit_entry ::
  "lib \<Rightarrow> env \<Rightarrow> string \<Rightarrow> string \<Rightarrow> string \<Rightarrow> string \<Rightarrow> string \<Rightarrow> pyval \<Rightarrow> world \<Rightarrow> pyval" where
  "audit_entry L E ev doc stg sts rsn det w =
     hashed_entry_dict L (asdict (new_entry (audit w) (audit_ts E (counter (audit w)))
        ev doc stg sts rsn det))"

definition stages :: "logline list \<Rightarrow> (pyval option \<times> pyval option) list" where
  "stages ls = map (\<lambda>l. (line_field l ''event_type'', line_field l ''stage'')) ls"

definition new_entries :: "world \<Rightarrow> world \<Rightarrow> logline list" where
  "new_entries w w' = drop (length (logfile w)) (logfile w')"

text \<open>
  The files one successful \<^verbatim>\<open>save_evidence_bundle\<close> call writes under the bundle path,
  as a map from paths to contents.
\<close>

definition bundle_files ::
  "string \<Rightarrow> string \<Rightarrow> string \<Rightarrow> pyval \<Rightarrow> pyval \<Rightarrow> pyval \<Rightarrow> (string \<rightharpoonup> fcontent)" where
  "bundle_files bp content rsn lineage scores metadata =
     (\<lambda>p. if p = os_path_join bp ''metadata.json'' \<and> truthy metadata then Some (Json metadata)
          else if p = os_path_join bp ''detection_scores.json'' \<and> truthy scores then Some (Json scores)
          else if p = os_path_join bp ''lineage_record.json'' \<and> truthy lineage then Some (Json lineage)
          else if p = os_path_join bp ''reason.txt'' then Some (Text rsn)
          else if p = os_path_join bp ''content.txt'' then Some (Text content)
          else None)"

text \<open>
  What a caller sees of a run that returns: status, reason, whether there is a bundle
  path, the scores, and the (event type, stage) sequence of the audit events of the run;
  and the same, computed from the lineage input, the verifier's result and the scorer's
  result alone.
\<close>

type_synonym summary = "string \<times> string \<times> bool \<times> pyval \<times> (pyval option \<times> pyval option) list"

definition summary_of :: "verdict \<Rightarrow> logline list \<Rightarrow> summary" where
  "summary_of v es = (status v, reason v, bundle_path v \<noteq> None, semantic_scores v, stages es)"

definition ev_stage :: "string \<Rightarrow> string \<Rightarrow> pyval option \<times> pyval option" where
  "ev_stage e s = (Some (PStr e), Some (PStr s))"

definition semantic_summary ::
  "(pyval option \<times> pyval option) list \<Rightarrow> pyval \<Rightarrow> error + summary" where
  "semantic_summary evs sem =
     (case is_suspicious sem of
        Inl e \<Rightarrow> Inl e
      | Inr True \<Rightarrow> Inr (''quarantined'', ''Semantic anomaly.'', True, sem,
                         evs @ [ev_stage ''semantic_fail'' ''semantic''])
      | Inr False \<Rightarrow> Inr (''accepted'', ''Clean document.'', False, sem,
                          evs @ [ev_stage ''semantic_ok'' ''semantic'',
                                 ev_stage ''accept'' ''pipeline_end'']))"

definition expected_summary ::
  "lineage_input \<Rightarrow> (error + bool \<times> string) option \<Rightarrow> pyval \<Rightarrow> error + summary" where
  "expected_summary lineage vr sem =
     (if lineage \<noteq> LValue PNone \<and> normalize_lineage_record lineage = None
      then Inr (''quarantined'', ''Invalid lineage record structure.'', True, PNone,
                [ev_stage ''ingest_start'' ''start'',
                 ev_stage ''lineage_fail'' ''lineage_deserialization''])
      else case vr of
             None \<Rightarrow> semantic_summary [ev_stage ''ingest_start'' ''start''] sem
           | Some (Inl e) \<Rightarrow> Inl e
           | Some (Inr (False, rsn)) \<Rightarrow>
               Inr (''quarantined'', rsn, True, PNone,
                    [ev_stage ''ingest_start'' ''start'', ev_stage ''lineage_fail'' ''lineage''])
           | Some (Inr (True, rsn)) \<Rightarrow>
               semantic_summary [ev_stage ''ingest_start'' ''start'',
                                 ev_stage ''lineage_ok'' ''lineage''] sem)"

section \<open>Concrete inputs for the examples\<close>

definition demo_detect :: "string \<Rightarrow> pyval" where
  "demo_detect content =
     PDict [(''total_score'', PFloat 0), (''is_suspicious'', PBool (take 6 content = ''Ignore''))]"

definition demo_pipeline :: pipeline where
  "demo_pipeline = \<lparr>lineage_verifier = \<lparr>signer = HMACSigner_init ''demo-secret''\<rparr>,
                     quarantine_manager = \<lparr>quarantine_dir = ''data/quarantine''\<rparr>\<rparr>"

definition demo_pipeline_other_key :: pipeline where
  "demo_pipeline_other_key = \<lparr>lineage_verifier = \<lparr>signer = HMACSigner_init ''another-secret''\<rparr>,
                     quarantine_manager = \<lparr>quarantine_dir = ''data/quarantine''\<rparr>\<rparr>"

definition demo_env :: env where
  "demo_env = \<lparr>audit_ts = (\<lambda>i. ''2025-01-01T00:00:00Z''), audit_ok = (\<lambda>i. True),
               audit_left = (\<lambda>i. Left_nothing),
               q_ts = ''20250101T000000Z'', q_ok = True\<rparr>"

definition demo_env_later :: env where
  "demo_env_later = \<lparr>audit_ts = (\<lambda>i. ''2025-06-30T12:00:00Z''), audit_ok = (\<lambda>i. True),
               audit_left = (\<lambda>i. Left_nothing),
               q_ts = ''20250630T120000Z'', q_ok = True\<rparr>"

definition demo_world :: world where
  "demo_world = \<lparr>audit = AuditLog_init ''data/audit/audit_log.jsonl'', logfile = [],
                 qfs = \<lparr>dirs = {''data/quarantine''}, files = Map.empty\<rparr>\<rparr>"

definition demo_world_used :: world where
  "demo_world_used = \<lparr>audit = \<lparr>path = ''data/audit/audit_log.jsonl'', last_hash = Some ''a9'',
                                 counter = 7\<rparr>, logfile = [],
                 qfs = \<lparr>dirs = {''data/quarantine''}, files = Map.empty\<rparr>\<rparr>"

definition demo_tampered :: lineage_input where
  "demo_tampered = LValue (PDict
     [(''document_id'', PStr ''doc-lineage-attack''), (''version'', PInt 1),
      (''content_hash'', PStr ''DEADBEEF''), (''prev_hash'', PNone),
      (''created_at'', PStr ''2025-01-01T00:00:00Z''), (''author'', PStr ''attacker''),
      (''source'', PStr ''confluence''), (''signature'', PStr ''0a0b'')])"

definition demo_malformed :: lineage_input where
  "demo_malformed = LValue (PDict [(''document_id'', PStr ''doc-bad'')])"

definition demo_untyped :: "(string \<times> pyval) list" where
  "demo_untyped =
     [(''document_id'', PInt 7), (''version'', PStr ''two''),
      (''content_hash'', PList []), (''prev_hash'', PNone),
      (''created_at'', PBool True), (''author'', PStr ''a''),
      (''source'', PStr ''s'')]"

section \<open>Unfolding the definitions on concrete inputs\<close>

lemmas eval_defs =
  process_document_def lineage_step_def semantic_step_def quarantine_exit_def
  audit_write_def quarantine_save_def write_event_def save_evidence_bundle_def
  normalize_lineage_record_def LineageRecord_init_def lineage_fields_def required_fields_def
  kwarg_def raw_lineage_def record_dict_def is_suspicious_def py_or_def
  verify_record_def verify_content_hash_def verify_signature_def verify_def compare_digest_def
  sign_def compute_content_hash_def core_payload_bytes_def core_payload_def
  new_entry_def asdict_def hashed_entry_dict_def compute_entry_hash_def sha256_hex_def
  hexdigest_def hex_byte_def hexdigit_def is_ascii_def opt_str_def dict_set_def dict_get_def
  mk_bundle_path_def os_path_join_def safe_id_def write_text_def write_json_def
  AuditLog_init_def HMACSigner_init_def line_field_def Let_def

lemmas demo_defs =
  demo_lib_def demo_detect_def demo_pipeline_def demo_env_def demo_env_later_def
  demo_world_def demo_world_used_def demo_tampered_def
  demo_pipeline_other_key_def demo_malformed_def demo_untyped_def

section \<open>The audit log: hash chain, entry hash, state update\<close>

lemma hashed_entry_dict_fields:
  "dict_get (hashed_entry_dict L (asdict e)) ''entry_hash'' =
     Some (PStr (compute_entry_hash L (asdict e)))"
  "dict_get (hashed_entry_dict L (asdict e)) ''index'' = Some (PInt (a_index e))"
  "dict_get (hashed_entry_dict L (asdict e)) ''prev_hash'' = Some (opt_str (a_prev_hash e))"
  by (simp_all add: hashed_entry_dict_def asdict_def dict_set_def dict_get_def)

lemma write_event_result:
  "write_event L ts ok left ev doc stg sts rsn det (al, lf) =
     (if ok then Inr () else Inl OSError,
      (al\<lparr>last_hash := Some (compute_entry_hash L (asdict (new_entry al ts ev doc stg sts rsn det))),
          counter := counter al + 1\<rparr>,
       if ok then lf @ [Line (hashed_entry_dict L (asdict (new_entry al ts ev doc stg sts rsn det)))]
       else case left of
              Left_nothing \<Rightarrow> lf
            | Left_part \<Rightarrow>
                lf @ [Torn (hashed_entry_dict L (asdict (new_entry al ts ev doc stg sts rsn det)))]
            | Left_whole \<Rightarrow>
                lf @ [Line (hashed_entry_dict L (asdict (new_entry al ts ev doc stg sts rsn det)))]))"
  by (simp add: write_event_def Let_def)

lemma write_events_chain:
  "list_all c_ok cs \<Longrightarrow>
   \<exists>es. snd (write_events L cs (al, lf)) = lf @ map Line es \<and> length es = length cs \<and>
        chain_from (counter al) (last_hash al) es"
proof (induction cs arbitrary: al lf)
  case Nil
  then show ?case by simp
next
  case (Cons c cs)
  let ?e = "new_entry al (c_ts c) (c_event_type c) (c_document_id c) (c_stage c)
              (c_status c) (c_reason c) (c_details c)"
  let ?h = "compute_entry_hash L (asdict ?e)"
  let ?al = "al\<lparr>last_hash := Some ?h, counter := counter al + 1\<rparr>"
  let ?d = "hashed_entry_dict L (asdict ?e)"
  from Cons.prems have ok: "c_ok c" and rest: "list_all c_ok cs" by simp_all
  have step: "snd (write_call L c (al, lf)) = (?al, lf @ [Line ?d])"
    using ok by (simp add: write_call_def write_event_result)
  from Cons.IH[OF rest, of ?al "lf @ [Line ?d]"]
  obtain es where es: "snd (write_events L cs (?al, lf @ [Line ?d])) = (lf @ [Line ?d]) @ map Line es"
    "length es = length cs" "chain_from (counter ?al) (last_hash ?al) es" by blast
  have "chain_from (counter al) (last_hash al) (?d # es)"
    using es(3) by (simp add: hashed_entry_dict_fields new_entry_def)
  with es step show ?case by (intro exI[of _ "?d # es"]) simp
qed

lemma chain_from_nth:
  "chain_from n h es \<Longrightarrow> i < length es \<Longrightarrow>
   dict_get (es ! i) ''index'' = Some (PInt (n + int i)) \<and>
   dict_get (es ! i) ''prev_hash'' =
     (if i = 0 then Some (opt_str h) else dict_get (es ! (i - 1)) ''entry_hash'') \<and>
   (\<exists>h'. dict_get (es ! i) ''entry_hash'' = Some (PStr h'))"
proof (induction es arbitrary: n h i)
  case Nil
  then show ?case by simp
next
  case (Cons e es)
  from Cons.prems(1) obtain h' where e: "dict_get e ''index'' = Some (PInt n)"
    "dict_get e ''prev_hash'' = Some (opt_str h)" "dict_get e ''entry_hash'' = Some (PStr h')"
    "chain_from (n + 1) (Some h') es"
    by (auto split: option.splits pyval.splits)
  show ?case
  proof (cases i)
    case 0
    then show ?thesis using e by simp
  next
    case (Suc j)
    with Cons.prems(2) have j: "j < length es" by simp
    from Cons.IH[OF e(4) j] show ?thesis using Suc e(3)
      by (cases j) (simp_all add: opt_str_def)
  qed
qed

lemma hexdigest_length: "length (hexdigest bs) = 2 * length bs"
  by (induction bs) (simp_all add: hexdigest_def hex_byte_def)

lemma hexdigest_Cons: "hexdigest (b # bs) = hex_byte b @ hexdigest bs"
  by (simp add: hexdigest_def)

lemma hex_byte_digits:
  "hex_byte c = [''0123456789abcdef'' ! ((of_char c :: nat) div 16),
                 ''0123456789abcdef'' ! ((of_char c :: nat) mod 16)]"
proof -
  have "(of_char c :: nat) < 256" by simp
  then have "(of_char c :: nat) div 16 < 16" by arith
  then have "((of_char c :: nat) div 16) mod 16 = (of_char c :: nat) div 16" by simp
  then show ?thesis by (simp add: hex_byte_def hexdigit_def)
qed

lemma hexdigest_nth:
  "i < length bs \<Longrightarrow>
   hexdigest bs ! (2 * i) = ''0123456789abcdef'' ! ((of_char (bs ! i) :: nat) div 16) \<and>
   hexdigest bs ! (2 * i + 1) = ''0123456789abcdef'' ! ((of_char (bs ! i) :: nat) mod 16)"
proof (induction bs arbitrary: i)
  case Nil
  then show ?case by simp
next
  case (Cons b bs)
  show ?case
  proof (cases i)
    case 0
    then show ?thesis by (simp add: hexdigest_Cons hex_byte_digits)
  next
    case (Suc j)
    with Cons.prems have j: "j < length bs" by simp
    have l: "length (hex_byte b) = 2" by (simp add: hex_byte_def)
    have "hexdigest (b # bs) ! (2 * i) = hexdigest bs ! (2 * j)"
      and "hexdigest (b # bs) ! (2 * i + 1) = hexdigest bs ! (2 * j + 1)"
      using Suc l by (simp_all add: hexdigest_Cons nth_append)
    with Cons.IH[OF j] Suc show ?thesis by simp
  qed
qed

text \<open>
  Claim C1 does not hold as stated: the claim is about any sequence of calls, and a call
  whose append fails still advances \<^verbatim>\<open>last_hash\<close> and \<^verbatim>\<open>counter\<close>. Here the first call
  on a fresh log fails (\<^verbatim>\<open>open\<close> refuses) and the caller tries again: the only entry
  in the file has index 1 and a \<^verbatim>\<open>prev_hash\<close> that is not null.
\<close>

theorem failed_then_successful_append_breaks_chain:
  "map (\<lambda>l. (line_field l ''index'', line_field l ''prev_hash''))
     (snd (write_events demo_lib demo_calls_retry
             (AuditLog_init ''data/audit/audit_log.jsonl'', []))) =
   [(Some (PInt 1), Some (PStr ''a9''))]"
  by (simp add: demo_calls_retry_def write_call_def line_field_def eval_defs demo_lib_def)

text \<open>
  Claim C1 as amended. On a freshly constructed \<^verbatim>\<open>AuditLog\<close> (whatever the log file
  already holds, the file being opened in append mode), \<open>N\<close> calls of \<^verbatim>\<open>write_event\<close>
  whose appends all succeed add \<open>N\<close> whole lines whose entries form a hash chain: entry
  \<open>i\<close> has index \<open>i\<close>, entry \<open>0\<close> has \<^verbatim>\<open>prev_hash\<close> null, and for \<open>i > 0\<close> the
  \<^verbatim>\<open>prev_hash\<close> of entry \<open>i\<close> is the \<^verbatim>\<open>entry_hash\<close> of entry \<open>i - 1\<close>.
\<close>

theorem audit_chain_integrity:
  assumes "list_all c_ok cs"
  shows "\<exists>es. snd (write_events L cs (AuditLog_init p, lf)) = lf @ map Line es \<and>
           length es = length cs \<and>
           (\<forall>i<length es.
              dict_get (es ! i) ''index'' = Some (PInt (int i)) \<and>
              (\<exists>h. dict_get (es ! i) ''entry_hash'' = Some (PStr h)) \<and>
              dict_get (es ! i) ''prev_hash'' =
                (if i = 0 then Some PNone else dict_get (es ! (i - 1)) ''entry_hash''))"
proof -
  from write_events_chain[OF assms, of L "AuditLog_init p" lf]
  obtain es where es: "snd (write_events L cs (AuditLog_init p, lf)) = lf @ map Line es"
    "length es = length cs" "chain_from 0 None es"
    by (auto simp: AuditLog_init_def)
  have "dict_get (es ! i) ''index'' = Some (PInt (int i)) \<and>
        (\<exists>h. dict_get (es ! i) ''entry_hash'' = Some (PStr h)) \<and>
        dict_get (es ! i) ''prev_hash'' =
          (if i = 0 then Some PNone else dict_get (es ! (i - 1)) ''entry_hash'')"
    if "i < length es" for i
    using chain_from_nth[OF es(3) that] by (simp add: opt_str_def)
  with es(1,2) show ?thesis by blast
qed

theorem audit_chain_integrity_witness:
  "list_all c_ok demo_calls \<and>
   map (\<lambda>l. (line_field l ''index'', line_field l ''prev_hash'', line_field l ''entry_hash''))
     (snd (write_events demo_lib demo_calls (AuditLog_init ''data/audit/audit_log.jsonl'', []))) =
     [(Some (PInt 0), Some PNone, Some (PStr ''a9'')),
      (Some (PInt 1), Some (PStr ''a9''), Some (PStr ''97''))] \<and>
   (\<exists>es. snd (write_events demo_lib demo_calls (AuditLog_init ''data/audit/audit_log.jsonl'', []))
            = [] @ map Line es \<and>
          length es = length demo_calls \<and>
          (\<forall>i<length es.
             dict_get (es ! i) ''index'' = Some (PInt (int i)) \<and>
             (\<exists>h. dict_get (es ! i) ''entry_hash'' = Some (PStr h)) \<and>
             dict_get (es ! i) ''prev_hash'' =
               (if i = 0 then Some PNone else dict_get (es ! (i - 1)) ''entry_hash'')))"
proof -
  have h: "list_all c_ok demo_calls" by (simp add: demo_calls_def)
  have v: "map (\<lambda>l. (line_field l ''index'', line_field l ''prev_hash'',
                      line_field l ''entry_hash''))
     (snd (write_events demo_lib demo_calls (AuditLog_init ''data/audit/audit_log.jsonl'', []))) =
     [(Some (PInt 0), Some PNone, Some (PStr ''a9'')),
      (Some (PInt 1), Some (PStr ''a9''), Some (PStr ''97''))]"
    by (simp add: demo_calls_def write_call_def line_field_def eval_defs demo_lib_def)
  from audit_chain_integrity[OF h, of demo_lib "''data/audit/audit_log.jsonl''" "[]"] h v
  show ?thesis by blast
qed

text \<open>
  Claim C2. For an entry written by \<^verbatim>\<open>write_event\<close>, let \<open>d\<close> be the dictionary of
  the entry's ten fields with \<^verbatim>\<open>entry_hash\<close> present and null, and \<open>h\<close> the hexadecimal
  SHA-256 digest of the sorted-key JSON encoding of \<open>d\<close> (two lower-case hexadecimal
  digits for each byte of the digest). The line written holds \<open>d\<close> with \<open>h\<close> written over
  the null and nothing else changed, \<^verbatim>\<open>last_hash\<close> becomes \<open>h\<close>; and putting the null
  back into the stored entry and hashing the same way gives the stored \<^verbatim>\<open>entry_hash\<close>
  again.
\<close>

theorem entry_hash_over_null_placeholder:
  "(let prev = (case last_hash al of None \<Rightarrow> PNone | Some p \<Rightarrow> PStr p);
        d = PDict [(''index'', PInt (counter al)), (''timestamp'', PStr ts),
                   (''event_type'', PStr ev), (''document_id'', PStr doc),
                   (''stage'', PStr stg), (''status'', PStr sts), (''reason'', PStr rsn),
                   (''details'', det), (''prev_hash'', prev), (''entry_hash'', PNone)];
        digest = sha256 L (json_dumps_sorted L d);
        h = hexdigest digest;
        e = PDict [(''index'', PInt (counter al)), (''timestamp'', PStr ts),
                   (''event_type'', PStr ev), (''document_id'', PStr doc),
                   (''stage'', PStr stg), (''status'', PStr sts), (''reason'', PStr rsn),
                   (''details'', det), (''prev_hash'', prev), (''entry_hash'', PStr h)]
    in write_event L ts True left ev doc stg sts rsn det (al, lf) =
         (Inr (), (al\<lparr>last_hash := Some h, counter := counter al + 1\<rparr>, lf @ [Line e])) \<and>
       length h = 2 * length digest \<and>
       (\<forall>i<length digest.
          h ! (2 * i) = ''0123456789abcdef'' ! ((of_char (digest ! i) :: nat) div 16) \<and>
          h ! (2 * i + 1) = ''0123456789abcdef'' ! ((of_char (digest ! i) :: nat) mod 16)) \<and>
       dict_set e ''entry_hash'' PNone = d \<and>
       hexdigest (sha256 L (json_dumps_sorted L (dict_set e ''entry_hash'' PNone))) = h)"
proof -
  define prev where "prev = (case last_hash al of None \<Rightarrow> PNone | Some p \<Rightarrow> PStr p)"
  define d where "d = PDict [(''index'', PInt (counter al)), (''timestamp'', PStr ts),
                   (''event_type'', PStr ev), (''document_id'', PStr doc),
                   (''stage'', PStr stg), (''status'', PStr sts), (''reason'', PStr rsn),
                   (''details'', det), (''prev_hash'', prev), (''entry_hash'', PNone)]"
  define digest where "digest = sha256 L (json_dumps_sorted L d)"
  define h where "h = hexdigest digest"
  define e where "e = PDict [(''index'', PInt (counter al)), (''timestamp'', PStr ts),
                   (''event_type'', PStr ev), (''document_id'', PStr doc),
                   (''stage'', PStr stg), (''status'', PStr sts), (''reason'', PStr rsn),
                   (''details'', det), (''prev_hash'', prev), (''entry_hash'', PStr h)]"
  have d: "asdict (new_entry al ts ev doc stg sts rsn det) = d"
    by (simp add: asdict_def new_entry_def d_def prev_def opt_str_def)
  have hh: "compute_entry_hash L d = h"
    by (simp add: compute_entry_hash_def sha256_hex_def h_def digest_def)
  have e: "hashed_entry_dict L d = e"
    by (simp add: hashed_entry_dict_def hh) (simp add: d_def e_def dict_set_def)
  have w: "write_event L ts True left ev doc stg sts rsn det (al, lf) =
         (Inr (), (al\<lparr>last_hash := Some h, counter := counter al + 1\<rparr>, lf @ [Line e]))"
    by (simp add: write_event_result d hh e)
  have len: "length h = 2 * length digest"
    by (simp add: h_def hexdigest_length)
  have digits: "\<forall>i<length digest.
          h ! (2 * i) = ''0123456789abcdef'' ! ((of_char (digest ! i) :: nat) div 16) \<and>
          h ! (2 * i + 1) = ''0123456789abcdef'' ! ((of_char (digest ! i) :: nat) mod 16)"
    unfolding h_def using hexdigest_nth by blast
  have restored: "dict_set e ''entry_hash'' PNone = d"
    by (simp add: d_def e_def dict_set_def)
  have again: "hexdigest (sha256 L (json_dumps_sorted L (dict_set e ''entry_hash'' PNone))) = h"
    by (simp add: restored h_def digest_def)
  from w len digits restored again show ?thesis
    unfolding Let_def prev_def[symmetric] d_def[symmetric] digest_def[symmetric]
      h_def[symmetric] e_def[symmetric]
    by (intro conjI)
qed

theorem entry_hash_over_null_placeholder_witness:
  "write_event demo_lib ''2025-01-01T00:00:00Z'' True Left_nothing ''ingest_start'' ''doc-1'' ''start''
     ''processing'' ''Document ingest started'' (PDict [(''metadata'', PDict [])])
     (AuditLog_init ''data/audit/audit_log.jsonl'', []) =
   (Inr (),
    (\<lparr>path = ''data/audit/audit_log.jsonl'', last_hash = Some ''a9'', counter = 1\<rparr>,
     [Line (PDict [(''index'', PInt 0), (''timestamp'', PStr ''2025-01-01T00:00:00Z''),
                   (''event_type'', PStr ''ingest_start''), (''document_id'', PStr ''doc-1''),
                   (''stage'', PStr ''start''), (''status'', PStr ''processing''),
                   (''reason'', PStr ''Document ingest started''),
                   (''details'', PDict [(''metadata'', PDict [])]),
                   (''prev_hash'', PNone), (''entry_hash'', PStr ''a9'')])])) \<and>
   hexdigest (sha256 demo_lib (json_dumps_sorted demo_lib
     (PDict [(''index'', PInt 0), (''timestamp'', PStr ''2025-01-01T00:00:00Z''),
             (''event_type'', PStr ''ingest_start''), (''document_id'', PStr ''doc-1''),
             (''stage'', PStr ''start''), (''status'', PStr ''processing''),
             (''reason'', PStr ''Document ingest started''),
             (''details'', PDict [(''metadata'', PDict [])]),
             (''prev_hash'', PNone), (''entry_hash'', PNone)]))) = ''a9''"
  using entry_hash_over_null_placeholder[of "AuditLog_init ''data/audit/audit_log.jsonl''"
      "''2025-01-01T00:00:00Z''" "''ingest_start''" "''doc-1''" "''start''" "''processing''"
      "''Document ingest started''" "PDict [(''metadata'', PDict [])]" demo_lib Left_nothing "[]"]
  by (simp add: Let_def AuditLog_init_def demo_lib_def hexdigest_def hex_byte_def hexdigit_def
      dict_set_def)

text \<open>
  Claim C4 does not hold as stated: the two assignments to the chain head precede the
  append, so a failed append leaves \<^verbatim>\<open>last_hash\<close> and \<^verbatim>\<open>counter\<close> advanced. Here the
  first call on a fresh log fails to append: the error is raised, the counter is 1 and
  \<^verbatim>\<open>last_hash\<close> is the digest of the entry that was not written.
\<close>

theorem failed_append_advances_chain_state:
  "fst (write_event demo_lib ''2025-01-01T00:00:00Z'' False Left_nothing ''ingest_start'' ''doc-1''
          ''start'' ''processing'' ''Document ingest started'' (PDict [(''metadata'', PDict [])])
          (AuditLog_init ''data/audit/audit_log.jsonl'', [])) = Inl OSError \<and>
   fst (snd (write_event demo_lib ''2025-01-01T00:00:00Z'' False Left_nothing ''ingest_start'' ''doc-1''
          ''start'' ''processing'' ''Document ingest started'' (PDict [(''metadata'', PDict [])])
          (AuditLog_init ''data/audit/audit_log.jsonl'', []))) =
     \<lparr>path = ''data/audit/audit_log.jsonl'', last_hash = Some ''a9'', counter = 1\<rparr>"
  by (simp add: write_event_def demo_lib_def AuditLog_init_def new_entry_def asdict_def
      compute_entry_hash_def sha256_hex_def hexdigest_def hex_byte_def hexdigit_def opt_str_def
      Let_def)

text \<open>
  Claim C4 as amended. \<^verbatim>\<open>write_event\<close> takes \<^verbatim>\<open>prev_hash\<close> from \<^verbatim>\<open>last_hash\<close>
  (null on a fresh log), hashes the entry, sets \<^verbatim>\<open>last_hash\<close> to the digest and
  increments the counter, and then appends. The state update does not depend on the
  append: when the append fails, whatever it left in the file, the error
  is raised and \<^verbatim>\<open>last_hash\<close> and \<^verbatim>\<open>counter\<close> have been advanced all the same.
\<close>

theorem write_event_updates_state_before_append:
  "(let d = asdict (new_entry al ts ev doc stg sts rsn det);
        h = compute_entry_hash L d;
        al' = al\<lparr>last_hash := Some h, counter := counter al + 1\<rparr>
    in dict_get d ''prev_hash'' = Some (opt_str (last_hash al)) \<and>
       write_event L ts True left ev doc stg sts rsn det (al, lf) =
         (Inr (), (al', lf @ [Line (dict_set d ''entry_hash'' (PStr h))])) \<and>
       fst (write_event L ts False left ev doc stg sts rsn det (al, lf)) = Inl OSError \<and>
       fst (snd (write_event L ts False left ev doc stg sts rsn det (al, lf))) = al')"
  by (simp add: Let_def write_event_result hashed_entry_dict_def asdict_def dict_get_def
      new_entry_def)

section \<open>The signer and the verifier\<close>

lemma hexdigit_ascii: "(of_char (hexdigit n) :: nat) < 128"
proof -
  have "hexdigit n \<in> set ''0123456789abcdef''"
    unfolding hexdigit_def by (rule nth_mem) simp
  then show ?thesis by auto
qed

lemma is_ascii_hexdigest: "is_ascii (hexdigest bs)"
  by (induction bs) (simp_all add: is_ascii_def hexdigest_def hex_byte_def hexdigit_ascii)

lemma is_ascii_sign: "is_ascii (sign L s content)"
  by (simp add: sign_def is_ascii_hexdigest)

lemma core_payload_signature_update [simp]:
  "core_payload_bytes L (r\<lparr>signature := sg\<rparr>) = core_payload_bytes L r"
  by (simp add: core_payload_bytes_def core_payload_def)

lemma verify_signature_non_ascii:
  "verify_signature L V (r\<lparr>signature := PStr (CHR 0xC3 # CHR 0xA9 # rest)\<rparr>) = Inl TypeError"
  by (simp add: verify_signature_def verify_def compare_digest_def is_ascii_def)

lemma verify_record_mismatch:
  "content_hash r \<noteq> PStr (sha256_hex L content) \<Longrightarrow> verify_record L V r content = Inr (False, ''Content hash mismatch.'')"
  by (auto simp add: verify_record_def verify_content_hash_def compute_content_hash_def)

lemma verify_record_well_formed:
  "signature r = PNone \<or> (\<exists>s. signature r = PStr s \<and> is_ascii s) \<Longrightarrow>
   verify_record L V r content =
     (if content_hash r \<noteq> PStr (sha256_hex L content) then Inr (False, ''Content hash mismatch.'')
      else if signature r \<noteq> PStr (sign L (signer V) (core_payload_bytes L r)) then Inr (False, ''Invalid signature.'')
      else Inr (True, ''Lineage and integrity verified.''))"
  by (auto simp add: verify_record_def verify_content_hash_def compute_content_hash_def verify_signature_def verify_def compare_digest_def is_ascii_sign)

lemma verify_record_reasons:
  "verify_record L V r content = Inr (False, rsn) \<Longrightarrow>
   rsn = ''Content hash mismatch.'' \<or> rsn = ''Invalid signature.''"
  by (auto simp add: verify_record_def split: if_splits sum.splits)

text \<open>
  Claim C3: \<^verbatim>\<open>verify_record\<close> checks the content hash first and the signature second,
  and returns one of three pairs. The lemmas above give the claim for every record whose
  signature is absent or an ASCII string, and the content-hash answer for every record.
  The remaining case is a record with a matching content hash and a signature that is a
  string with a non-ASCII character, here the two bytes of U+00E9 followed by anything:
  \<^verbatim>\<open>hmac.compare_digest\<close> raises \<^verbatim>\<open>TypeError\<close>, so \<^verbatim>\<open>verify_record\<close> returns no
  pair at all, where the docstring of \<^verbatim>\<open>HMACSigner.verify\<close> promises
  \<^verbatim>\<open>False\<close> for every signature that is not valid.
\<close>

theorem verify_record_raises_on_non_ascii_signature:
  "verify_record L V (r\<lparr>content_hash := PStr (compute_content_hash L content),
       signature := PStr (CHR 0xC3 # CHR 0xA9 # rest)\<rparr>) content = Inl TypeError"
  by (simp add: verify_record_def verify_content_hash_def verify_signature_def verify_def
      compare_digest_def is_ascii_def)

text \<open>
  The round trip of claim C7, and what \<^verbatim>\<open>verify_signature\<close> answers on an absent
  signature, on an ASCII string, and on a record whose core payload was changed after
  signing.
\<close>

lemma signature_round_trip:
  "verify_signature L V (sign_lineage_record L (signer V) r) = Inr True"
  by (simp add: verify_signature_def sign_lineage_record_def verify_def compare_digest_def is_ascii_sign)

lemma absent_signature_rejected:
  "signature r = PNone \<Longrightarrow> verify_signature L V r = Inr False"
  by (simp add: verify_signature_def)

lemma verify_signature_ascii:
  "is_ascii sg \<Longrightarrow> verify_signature L V (r\<lparr>signature := PStr sg\<rparr>) =
     Inr (sg = sign L (signer V) (core_payload_bytes L r))"
  by (auto simp add: verify_signature_def verify_def compare_digest_def is_ascii_sign)

lemma verify_signature_not_true_when_changed:
  "sg \<noteq> PStr (sign L (signer V) (core_payload_bytes L r)) \<Longrightarrow>
   verify_signature L V (r\<lparr>signature := sg\<rparr>) \<noteq> Inr True"
  by (auto simp add: verify_signature_def verify_def compare_digest_def split: pyval.splits)

lemma changed_payload_rejected:
  assumes "sign L (signer V) (core_payload_bytes L r') \<noteq> sign L (signer V) (core_payload_bytes L r)"
  shows "verify_signature L V (r'\<lparr>signature := PStr (sign L (signer V) (core_payload_bytes L r))\<rparr>)
           = Inr False"
  using assms by (simp add: verify_signature_ascii is_ascii_sign)

text \<open>
  Claim C7: signing the core payload and attaching the result makes
  \<^verbatim>\<open>verify_signature\<close> true, an absent signature makes it false, and a change to the
  payload or to the signature makes it false. The lemmas above give the round trip, the
  absent signature, every changed signature that is still an ASCII string, and every
  changed payload whose HMAC differs. The code departs from the claim when the changed
  signature is no longer ASCII: replacing the first character of the valid signature by
  U+00E9 makes \<^verbatim>\<open>verify_signature\<close> raise \<^verbatim>\<open>TypeError\<close> instead of returning
  \<^verbatim>\<open>False\<close>.
\<close>

theorem verify_signature_raises_on_changed_signature:
  "verify_signature L V
     ((sign_lineage_record L (signer V) r)
        \<lparr>signature := PStr (CHR 0xC3 # CHR 0xA9 # tl (sign L (signer V) (core_payload_bytes L r)))\<rparr>)
   = Inl TypeError"
  by (simp add: verify_signature_def verify_def compare_digest_def is_ascii_def)

section \<open>The quarantine store\<close>

lemma os_path_join_inj:
  "a = [] \<or> hd a \<noteq> CHR ''/'' \<Longrightarrow> b = [] \<or> hd b \<noteq> CHR ''/'' \<Longrightarrow>
   os_path_join p a = os_path_join p b \<longleftrightarrow> a = b"
  by (auto simp: os_path_join_def)

lemma os_path_join_plain:
  "a \<noteq> [] \<Longrightarrow> last a \<noteq> CHR ''/'' \<Longrightarrow> b = [] \<or> hd b \<noteq> CHR ''/'' \<Longrightarrow>
   os_path_join a b = a @ ''/'' @ b"
  by (auto simp add: os_path_join_def)

lemma save_evidence_bundle_ok:
  "save_evidence_bundle Q ts True doc content rsn lineage scores metadata f =
     (Inr (mk_bundle_path Q ts doc),
      \<lparr>dirs = insert (mk_bundle_path Q ts doc) (dirs f),
       files = files f ++ bundle_files (mk_bundle_path Q ts doc) content rsn lineage scores metadata\<rparr>)"
  by (auto simp add: save_evidence_bundle_def Let_def write_text_def write_json_def bundle_files_def
      map_add_def fun_eq_iff os_path_join_inj)

lemma save_evidence_bundle_files:
  "files (snd (save_evidence_bundle Q ts True doc content rsn lineage scores metadata f)) p =
     (case bundle_files (mk_bundle_path Q ts doc) content rsn lineage scores metadata p of
        None \<Rightarrow> files f p | Some c \<Rightarrow> Some c)"
  by (simp add: save_evidence_bundle_ok map_add_def)

lemma bundle_files_reason:
  "bundle_files bp content rsn lineage scores metadata (os_path_join bp ''reason.txt'') = Some (Text rsn)"
  by (simp add: bundle_files_def os_path_join_inj)

lemma bundle_files_lookup:
  "bundle_files bp content rsn lineage scores metadata (os_path_join bp ''content.txt'') = Some (Text content)"
  "bundle_files bp content rsn lineage scores metadata (os_path_join bp ''lineage_record.json'') =
     (if truthy lineage then Some (Json lineage) else None)"
  "bundle_files bp content rsn lineage scores metadata (os_path_join bp ''detection_scores.json'') =
     (if truthy scores then Some (Json scores) else None)"
  "bundle_files bp content rsn lineage scores metadata (os_path_join bp ''metadata.json'') =
     (if truthy metadata then Some (Json metadata) else None)"
  by (simp_all add: bundle_files_def os_path_join_inj)

lemma bundle_files_other:
  "p \<notin> {os_path_join bp ''content.txt'', os_path_join bp ''reason.txt'',
         os_path_join bp ''lineage_record.json'', os_path_join bp ''detection_scores.json'',
         os_path_join bp ''metadata.json''} \<Longrightarrow>
   bundle_files bp content rsn lineage scores metadata p = None"
  by (simp add: bundle_files_def)

text \<open>
  Claim C8 does not hold as stated: an optional artifact is written when its input is
  truthy, not when it is supplied. Here the metadata is supplied as the empty dictionary,
  and the bundle has no \<^verbatim>\<open>metadata.json\<close>.
\<close>

theorem empty_metadata_supplied_but_omitted:
  "fst (save_evidence_bundle \<lparr>quarantine_dir = ''data/quarantine''\<rparr> ''20250101T000000Z'' True
          ''doc 1'' ''text'' ''why'' PNone PNone (PDict []) \<lparr>dirs = {}, files = Map.empty\<rparr>) =
     Inr ''data/quarantine/20250101T000000Z_doc_1'' \<and>
   files (snd (save_evidence_bundle \<lparr>quarantine_dir = ''data/quarantine''\<rparr> ''20250101T000000Z'' True
          ''doc 1'' ''text'' ''why'' PNone PNone (PDict []) \<lparr>dirs = {}, files = Map.empty\<rparr>))
      ''data/quarantine/20250101T000000Z_doc_1/metadata.json'' = None"
  by (simp add: eval_defs)

text \<open>
  Claim C8 as amended. A successful \<^verbatim>\<open>save_evidence_bundle\<close> returns
  \<^verbatim>\<open>os.path.join(quarantine_dir, ts + "_" + id)\<close>, where \<open>id\<close> is the document id with
  every space replaced by an underscore; that is \<^verbatim>\<open>quarantine_dir/ts_id\<close> when the
  directory name is not empty and does not end with a slash. It always writes
  \<^verbatim>\<open>content.txt\<close> and \<^verbatim>\<open>reason.txt\<close>; it writes each of
  \<^verbatim>\<open>lineage_record.json\<close>, \<^verbatim>\<open>detection_scores.json\<close> and \<^verbatim>\<open>metadata.json\<close> if
  and only if the corresponding input is truthy (supplied and not empty), and otherwise
  leaves that path as it was; it touches no other path.
\<close>

theorem save_evidence_bundle_artifacts:
  "(let bp = os_path_join (quarantine_dir Q)
               (ts @ ''_'' @ map (\<lambda>c. if c = CHR '' '' then CHR ''_'' else c) doc);
        f' = snd (save_evidence_bundle Q ts True doc content rsn lineage scores metadata f)
    in fst (save_evidence_bundle Q ts True doc content rsn lineage scores metadata f) = Inr bp \<and>
       (quarantine_dir Q \<noteq> [] \<and> last (quarantine_dir Q) \<noteq> CHR ''/'' \<and> (ts = [] \<or> hd ts \<noteq> CHR ''/'')
          \<longrightarrow> bp = quarantine_dir Q @ ''/'' @ ts @ ''_'' @
                     map (\<lambda>c. if c = CHR '' '' then CHR ''_'' else c) doc) \<and>
       files f' (os_path_join bp ''content.txt'') = Some (Text content) \<and>
       files f' (os_path_join bp ''reason.txt'') = Some (Text rsn) \<and>
       files f' (os_path_join bp ''lineage_record.json'') =
         (if truthy lineage then Some (Json lineage)
          else files f (os_path_join bp ''lineage_record.json'')) \<and>
       files f' (os_path_join bp ''detection_scores.json'') =
         (if truthy scores then Some (Json scores)
          else files f (os_path_join bp ''detection_scores.json'')) \<and>
       files f' (os_path_join bp ''metadata.json'') =
         (if truthy metadata then Some (Json metadata)
          else files f (os_path_join bp ''metadata.json'')) \<and>
       (\<forall>p. p \<notin> {os_path_join bp ''content.txt'', os_path_join bp ''reason.txt'',
                 os_path_join bp ''lineage_record.json'', os_path_join bp ''detection_scores.json'',
                 os_path_join bp ''metadata.json''} \<longrightarrow> files f' p = files f p))"
proof -
  define name where "name = ts @ ''_'' @ map (\<lambda>c. if c = CHR '' '' then CHR ''_'' else c) doc"
  define bp where "bp = os_path_join (quarantine_dir Q) name"
  define f' where "f' = snd (save_evidence_bundle Q ts True doc content rsn lineage scores metadata f)"
  have bp_eq: "mk_bundle_path Q ts doc = bp"
    by (simp add: mk_bundle_path_def safe_id_def bp_def name_def)
  have r: "fst (save_evidence_bundle Q ts True doc content rsn lineage scores metadata f) = Inr bp"
    by (simp add: save_evidence_bundle_ok bp_eq)
  have form: "bp = quarantine_dir Q @ ''/'' @ name"
    if "quarantine_dir Q \<noteq> [] \<and> last (quarantine_dir Q) \<noteq> CHR ''/'' \<and> (ts = [] \<or> hd ts \<noteq> CHR ''/'')"
    unfolding bp_def
  proof (rule os_path_join_plain)
    show "name = [] \<or> hd name \<noteq> CHR ''/''" using that by (cases ts) (auto simp: name_def)
  qed (use that in auto)
  have look: "files f' p =
      (case bundle_files bp content rsn lineage scores metadata p of
         None \<Rightarrow> files f p | Some c \<Rightarrow> Some c)" for p
    unfolding f'_def by (simp only: save_evidence_bundle_files bp_eq)
  have c1: "files f' (os_path_join bp ''content.txt'') = Some (Text content)"
    by (simp add: look bundle_files_lookup)
  have c2: "files f' (os_path_join bp ''reason.txt'') = Some (Text rsn)"
    by (simp add: look bundle_files_reason)
  have c3: "files f' (os_path_join bp ''lineage_record.json'') =
         (if truthy lineage then Some (Json lineage)
          else files f (os_path_join bp ''lineage_record.json''))"
    by (simp add: look bundle_files_lookup)
  have c4: "files f' (os_path_join bp ''detection_scores.json'') =
         (if truthy scores then Some (Json scores)
          else files f (os_path_join bp ''detection_scores.json''))"
    by (simp add: look bundle_files_lookup)
  have c5: "files f' (os_path_join bp ''metadata.json'') =
         (if truthy metadata then Some (Json metadata)
          else files f (os_path_join bp ''metadata.json''))"
    by (simp add: look bundle_files_lookup)
  have other: "\<forall>p. p \<notin> {os_path_join bp ''content.txt'', os_path_join bp ''reason.txt'',
                 os_path_join bp ''lineage_record.json'', os_path_join bp ''detection_scores.json'',
                 os_path_join bp ''metadata.json''} \<longrightarrow> files f' p = files f p"
  proof (intro allI impI)
    fix p
    assume "p \<notin> {os_path_join bp ''content.txt'', os_path_join bp ''reason.txt'',
                 os_path_join bp ''lineage_record.json'', os_path_join bp ''detection_scores.json'',
                 os_path_join bp ''metadata.json''}"
    from bundle_files_other[OF this] show "files f' p = files f p"
      by (simp only: look option.case)
  qed
  from r form c1 c2 c3 c4 c5 other show ?thesis
    unfolding Let_def name_def[symmetric] bp_def[symmetric] f'_def[symmetric]
    by (intro conjI impI)
qed

theorem save_evidence_bundle_artifacts_witness:
  "fst (save_evidence_bundle \<lparr>quarantine_dir = ''data/quarantine''\<rparr> ''20250101T000000Z'' True
          ''doc 1'' ''text'' ''why'' PNone (PDict [(''is_suspicious'', PBool True)]) (PDict [])
          \<lparr>dirs = {}, files = Map.empty\<rparr>) =
     Inr ''data/quarantine/20250101T000000Z_doc_1'' \<and>
   files (snd (save_evidence_bundle \<lparr>quarantine_dir = ''data/quarantine''\<rparr> ''20250101T000000Z''
          True ''doc 1'' ''text'' ''why'' PNone (PDict [(''is_suspicious'', PBool True)]) (PDict [])
          \<lparr>dirs = {}, files = Map.empty\<rparr>))
      ''data/quarantine/20250101T000000Z_doc_1/detection_scores.json'' =
     Some (Json (PDict [(''is_suspicious'', PBool True)])) \<and>
   files (snd (save_evidence_bundle \<lparr>quarantine_dir = ''data/quarantine''\<rparr> ''20250101T000000Z''
          True ''doc 1'' ''text'' ''why'' PNone (PDict [(''is_suspicious'', PBool True)]) (PDict [])
          \<lparr>dirs = {}, files = Map.empty\<rparr>))
      ''data/quarantine/20250101T000000Z_doc_1/lineage_record.json'' = None"
  using save_evidence_bundle_artifacts[of "\<lparr>quarantine_dir = ''data/quarantine''\<rparr>"
      "''20250101T000000Z''" "''doc 1''" "''text''" "''why''" PNone
      "PDict [(''is_suspicious'', PBool True)]" "PDict []" "\<lparr>dirs = {}, files = Map.empty\<rparr>"]
  by (simp add: Let_def os_path_join_def)

section \<open>The pipeline\<close>

lemma audit_write_ok:
  "audit_ok E (counter (audit w)) \<Longrightarrow>
   \<exists>w1. audit_write L E ev doc stg sts rsn det w = (Inr (), w1) \<and>
        logfile w1 = logfile w @ [Line (audit_entry L E ev doc stg sts rsn det w)] \<and>
        counter (audit w1) = counter (audit w) + 1 \<and> qfs w1 = qfs w"
  by (simp add: audit_write_def write_event_result audit_entry_def)

lemma audit_write_fail:
  "\<not> audit_ok E (counter (audit w)) \<Longrightarrow>
   \<exists>w1. audit_write L E ev doc stg sts rsn det w = (Inl OSError, w1)"
  by (simp add: audit_write_def write_event_result)

lemma audit_write_cases:
  obtains (ok) w1 where "audit_write L E ev doc stg sts rsn det w = (Inr (), w1)"
      "logfile w1 = logfile w @ [Line (audit_entry L E ev doc stg sts rsn det w)]"
      "counter (audit w1) = counter (audit w) + 1" "qfs w1 = qfs w"
      "audit_ok E (counter (audit w))"
    | (fail) w1 where "audit_write L E ev doc stg sts rsn det w = (Inl OSError, w1)"
      "\<not> audit_ok E (counter (audit w))"
  using audit_write_ok[of E w L ev doc stg sts rsn det] audit_write_fail[of E w L ev doc stg sts rsn det]
  by (cases "audit_ok E (counter (audit w))") auto

lemma audit_entry_fields:
  "dict_get (audit_entry L E ev doc stg sts rsn det w) ''event_type'' = Some (PStr ev)"
  "dict_get (audit_entry L E ev doc stg sts rsn det w) ''stage'' = Some (PStr stg)"
  by (simp_all add: audit_entry_def hashed_entry_dict_def asdict_def dict_set_def dict_get_def new_entry_def)

lemma stages_audit_entry:
  "stages [Line (audit_entry L E ev doc stg sts rsn det w)] =
     [(Some (PStr ev), Some (PStr stg))]"
  by (simp add: stages_def line_field_def audit_entry_fields)

lemma stages_append: "stages (xs @ ys) = stages xs @ stages ys"
  by (simp add: stages_def)

lemma quarantine_save_result:
  "quarantine_save P E doc content rsn lineage scores metadata w =
     (if q_ok E
      then (Inr (mk_bundle_path (quarantine_manager P) (q_ts E) doc),
            w\<lparr>qfs := \<lparr>dirs = insert (mk_bundle_path (quarantine_manager P) (q_ts E) doc) (dirs (qfs w)),
                       files = files (qfs w) ++
                         bundle_files (mk_bundle_path (quarantine_manager P) (q_ts E) doc)
                           content rsn lineage scores metadata\<rparr>\<rparr>)
      else (Inl OSError, w))"
  by (cases "q_ok E") (simp_all add: quarantine_save_def save_evidence_bundle_ok, simp add: save_evidence_bundle_def)

lemma quarantine_exit_Inr:
  assumes "quarantine_exit L P E doc content ev stg arsn det brsn lineage scores metadata vrsn vsc w = (Inr v, w')"
  shows "v = \<lparr>status = ''quarantined'', reason = vrsn,
              bundle_path = Some (mk_bundle_path (quarantine_manager P) (q_ts E) doc),
              semantic_scores = vsc\<rparr>"
    and "logfile w' = logfile w @ [Line (audit_entry L E ev doc stg ''quarantined'' arsn det w)]"
    and "files (qfs w') = files (qfs w) ++
           bundle_files (mk_bundle_path (quarantine_manager P) (q_ts E) doc)
             content brsn lineage scores metadata"
    and "audit_ok E (counter (audit w))" and "q_ok E"
    and "counter (audit w') = counter (audit w) + 1"
proof -
  show "v = \<lparr>status = ''quarantined'', reason = vrsn,
              bundle_path = Some (mk_bundle_path (quarantine_manager P) (q_ts E) doc),
              semantic_scores = vsc\<rparr>"
    and "logfile w' = logfile w @ [Line (audit_entry L E ev doc stg ''quarantined'' arsn det w)]"
    and "files (qfs w') = files (qfs w) ++
           bundle_files (mk_bundle_path (quarantine_manager P) (q_ts E) doc)
             content brsn lineage scores metadata"
    and "audit_ok E (counter (audit w))" and "q_ok E"
    and "counter (audit w') = counter (audit w) + 1"
    using assms
    by (cases rule: audit_write_cases[of L E ev doc stg "''quarantined''" arsn det w];
        auto simp add: quarantine_exit_def quarantine_save_result split: if_splits)+
qed

lemma quarantine_exit_ok:
  assumes "audit_ok E (counter (audit w))" "q_ok E"
  shows "\<exists>w'. quarantine_exit L P E doc content ev stg arsn det brsn lineage scores metadata vrsn vsc w =
     (Inr \<lparr>status = ''quarantined'', reason = vrsn,
              bundle_path = Some (mk_bundle_path (quarantine_manager P) (q_ts E) doc),
              semantic_scores = vsc\<rparr>, w')"
  using assms
  by (cases rule: audit_write_cases[of L E ev doc stg "''quarantined''" arsn det w])
     (auto simp add: quarantine_exit_def quarantine_save_result)

lemma quarantine_exit_reason_file:
  assumes "quarantine_exit L P E doc content ev stg arsn det brsn lineage scores metadata vrsn vsc w = (Inr v, w')"
  shows "status v = ''quarantined'' \<and> reason v = vrsn \<and> semantic_scores v = vsc \<and>
         bundle_path v = Some (mk_bundle_path (quarantine_manager P) (q_ts E) doc) \<and>
         files (qfs w') (os_path_join (mk_bundle_path (quarantine_manager P) (q_ts E) doc) ''reason.txt'')
           = Some (Text brsn)"
  using quarantine_exit_Inr(1,3)[OF assms] by (simp add: bundle_files_reason)

lemma semantic_step_Inr:
  assumes "semantic_step L detect P E doc content normalized metadata w = (Inr v, w')"
  shows "\<exists>es. logfile w' = logfile w @ es \<and>
           Inr (summary_of v (evs @ es)) = semantic_summary (stages evs) (detect content)"
proof (cases "is_suspicious (detect content)")
  case (Inl e)
  with assms show ?thesis by (simp add: semantic_step_def Let_def)
next
  case (Inr b)
  show ?thesis
  proof (cases b)
    case True
    with Inr assms have q: "quarantine_exit L P E doc content
            ''semantic_fail'' ''semantic'' ''Semantic anomaly detected''
            (PDict [(''scores'', detect content)])
            ''Semantic anomaly detected.''
            (case normalized of Some r \<Rightarrow> record_dict r | None \<Rightarrow> PNone)
            (detect content)
            (py_or metadata (PDict [(''stage'', PStr ''semantic'')]))
            ''Semantic anomaly.'' (detect content) w = (Inr v, w')"
      by (simp add: semantic_step_def Let_def)
    from quarantine_exit_Inr(1,2)[OF q] Inr True show ?thesis
      by (simp add: semantic_summary_def summary_of_def stages_def line_field_def
          audit_entry_fields ev_stage_def)
  next
    case False
    show ?thesis
    proof (cases rule: audit_write_cases[of L E "''semantic_ok''" doc "''semantic''" "''accepted''"
          "''Semantic clean''" "PDict [(''scores'', detect content)]" w])
      case (ok w1)
      show ?thesis
      proof (cases rule: audit_write_cases[of L E "''accept''" doc "''pipeline_end''" "''accepted''"
          "''Document fully clean''" "PDict [(''scores'', detect content)]" w1])
        case ok2: (ok w2)
        with ok Inr False assms show ?thesis
          by (auto simp add: semantic_step_def Let_def semantic_summary_def summary_of_def stages_def
              line_field_def audit_entry_fields ev_stage_def)
      next
        case (fail w2)
        with ok Inr False assms show ?thesis by (simp add: semantic_step_def Let_def)
      qed
    next
      case (fail w1)
      with Inr False assms show ?thesis by (simp add: semantic_step_def Let_def)
    qed
  qed
qed

lemma lineage_step_Inr:
  assumes "lineage_step L detect P E doc content normalized metadata w = (Inr v, w')"
    and "normalized = None \<or> lineage = LValue PNone \<or> normalize_lineage_record lineage \<noteq> None"
    and "stages evs = [ev_stage ''ingest_start'' ''start'']"
  shows "\<exists>es. logfile w' = logfile w @ es \<and>
           Inr (summary_of v (evs @ es)) =
             (case map_option (\<lambda>r. verify_record L (lineage_verifier P) r content) normalized of
                None \<Rightarrow> semantic_summary [ev_stage ''ingest_start'' ''start''] (detect content)
              | Some (Inl e) \<Rightarrow> Inl e
              | Some (Inr (False, rsn)) \<Rightarrow>
                  Inr (''quarantined'', rsn, True, PNone,
                       [ev_stage ''ingest_start'' ''start'', ev_stage ''lineage_fail'' ''lineage''])
              | Some (Inr (True, rsn)) \<Rightarrow>
                  semantic_summary [ev_stage ''ingest_start'' ''start'',
                                    ev_stage ''lineage_ok'' ''lineage''] (detect content))"
proof (cases normalized)
  case None
  with assms(1) have "semantic_step L detect P E doc content normalized metadata w = (Inr v, w')"
    by (simp add: lineage_step_def)
  from semantic_step_Inr[OF this, of evs] None assms(3) show ?thesis by simp
next
  case (Some r)
  show ?thesis
  proof (cases "verify_record L (lineage_verifier P) r content")
    case (Inl e)
    with Some assms(1) show ?thesis by (simp add: lineage_step_def)
  next
    case (Inr res)
    obtain okv rsn where res: "res = (okv, rsn)" by (cases res)
    show ?thesis
    proof (cases okv)
      case False
      with Some Inr res assms(1) have q: "quarantine_exit L P E doc content
                 ''lineage_fail'' ''lineage'' rsn
                 (PDict [(''lineage_record'', record_dict r)])
                 (''Lineage/Integrity failed: '' @ rsn)
                 (record_dict r) PNone
                 (py_or metadata (PDict [(''stage'', PStr ''lineage'')]))
                 rsn PNone w = (Inr v, w')"
        by (simp add: lineage_step_def)
      from quarantine_exit_Inr(1,2)[OF q] Some Inr res False assms(3) show ?thesis
        by (simp add: summary_of_def stages_append stages_audit_entry ev_stage_def)
    next
      case True
      show ?thesis
      proof (cases rule: audit_write_cases[of L E "''lineage_ok''" doc "''lineage''" "''accepted''"
          "''Lineage valid''" "PDict [(''version'', version r)]" w])
        case (ok w1)
        with Some Inr res True assms(1)
        have s: "semantic_step L detect P E doc content normalized metadata w1 = (Inr v, w')"
          by (simp add: lineage_step_def)
        let ?e = "Line (audit_entry L E ''lineage_ok'' doc ''lineage'' ''accepted''
                    ''Lineage valid'' (PDict [(''version'', version r)]) w)"
        from semantic_step_Inr[OF s, of "evs @ [?e]"]
        obtain es where es: "logfile w' = logfile w1 @ es"
          "Inr (summary_of v ((evs @ [?e]) @ es)) =
             semantic_summary (stages (evs @ [?e])) (detect content)" by blast
        have "logfile w' = logfile w @ (?e # es)" using es(1) ok(2) by simp
        moreover have "Inr (summary_of v (evs @ (?e # es))) =
             semantic_summary [ev_stage ''ingest_start'' ''start'',
                               ev_stage ''lineage_ok'' ''lineage''] (detect content)"
          using es(2) assms(3) by (simp add: stages_append stages_audit_entry ev_stage_def)
        ultimately show ?thesis using Some Inr res True by auto
      next
        case (fail w1)
        with Some Inr res True assms(1) show ?thesis by (simp add: lineage_step_def)
      qed
    qed
  qed
qed

lemma process_document_summary:
  assumes "process_document L detect P E doc content lineage metadata w = (Inr v, w')"
  shows "Inr (summary_of v (new_entries w w')) =
           expected_summary lineage
             (map_option (\<lambda>r. verify_record L (lineage_verifier P) r content)
                (normalize_lineage_record lineage))
             (detect content)"
proof (cases rule: audit_write_cases[of L E "''ingest_start''" doc "''start''" "''processing''"
      "''Document ingest started''" "PDict [(''metadata'', py_or metadata (PDict []))]" w])
  case (fail w1)
  with assms show ?thesis by (simp add: process_document_def)
next
  case (ok w1)
  let ?e = "Line (audit_entry L E ''ingest_start'' doc ''start'' ''processing''
              ''Document ingest started'' (PDict [(''metadata'', py_or metadata (PDict []))]) w)"
  have st: "stages [?e] = [ev_stage ''ingest_start'' ''start'']"
    by (simp add: stages_audit_entry ev_stage_def)
  show ?thesis
  proof (cases "lineage \<noteq> LValue PNone \<and> normalize_lineage_record lineage = None")
    case True
    with ok assms have q: "quarantine_exit L P E doc content
                  ''lineage_fail'' ''lineage_deserialization'' ''Invalid lineage structure''
                  (PDict [(''raw_lineage'', raw_lineage lineage)])
                  ''Lineage record deserialization failure.''
                  (raw_lineage lineage) PNone
                  (py_or metadata (PDict [(''stage'', PStr ''lineage_deserialization'')]))
                  ''Invalid lineage record structure.'' PNone w1 = (Inr v, w')"
      by (simp add: process_document_def Let_def)
    from quarantine_exit_Inr(1,2)[OF q] ok(2) True show ?thesis
      by (simp add: expected_summary_def summary_of_def new_entries_def stages_def
          line_field_def audit_entry_fields ev_stage_def)
  next
    case False
    with ok assms have s: "lineage_step L detect P E doc content
        (normalize_lineage_record lineage) metadata w1 = (Inr v, w')"
      by (auto simp add: process_document_def Let_def)
    from False have c: "normalize_lineage_record lineage = None \<or> lineage = LValue PNone \<or>
        normalize_lineage_record lineage \<noteq> None" by blast
    from lineage_step_Inr[OF s c st]
    obtain es where es: "logfile w' = logfile w1 @ es"
      "Inr (summary_of v ([?e] @ es)) =
         (case map_option (\<lambda>r. verify_record L (lineage_verifier P) r content)
                 (normalize_lineage_record lineage) of
            None \<Rightarrow> semantic_summary [ev_stage ''ingest_start'' ''start''] (detect content)
          | Some (Inl e) \<Rightarrow> Inl e
          | Some (Inr (False, rsn)) \<Rightarrow>
              Inr (''quarantined'', rsn, True, PNone,
                   [ev_stage ''ingest_start'' ''start'', ev_stage ''lineage_fail'' ''lineage''])
          | Some (Inr (True, rsn)) \<Rightarrow>
              semantic_summary [ev_stage ''ingest_start'' ''start'',
                                ev_stage ''lineage_ok'' ''lineage''] (detect content))"
      by blast
    have "new_entries w w' = [?e] @ es"
      using es(1) ok(2) by (simp add: new_entries_def)
    with es(2) False show ?thesis by (auto simp add: expected_summary_def)
  qed
qed

lemma semantic_step_quarantined:
  assumes "semantic_step L detect P E doc content normalized metadata w = (Inr v, w')"
    and "status v = ''quarantined''"
  shows "reason v = ''Semantic anomaly.'' \<and>
         bundle_path v = Some (mk_bundle_path (quarantine_manager P) (q_ts E) doc) \<and>
         files (qfs w') (os_path_join (mk_bundle_path (quarantine_manager P) (q_ts E) doc) ''reason.txt'')
           = Some (Text ''Semantic anomaly detected.'')"
proof (cases "is_suspicious (detect content)")
  case (Inl e)
  with assms show ?thesis by (simp add: semantic_step_def Let_def)
next
  case (Inr b)
  show ?thesis
  proof (cases b)
    case True
    with Inr assms(1) have q: "quarantine_exit L P E doc content
            ''semantic_fail'' ''semantic'' ''Semantic anomaly detected''
            (PDict [(''scores'', detect content)])
            ''Semantic anomaly detected.''
            (case normalized of Some r \<Rightarrow> record_dict r | None \<Rightarrow> PNone)
            (detect content)
            (py_or metadata (PDict [(''stage'', PStr ''semantic'')]))
            ''Semantic anomaly.'' (detect content) w = (Inr v, w')"
      by (simp add: semantic_step_def Let_def)
    from quarantine_exit_reason_file[OF q] show ?thesis by simp
  next
    case False
    from semantic_step_Inr[OF assms(1), of "[]"] Inr False
    have "status v = ''accepted''"
      by (auto simp add: semantic_summary_def summary_of_def)
    with assms(2) show ?thesis by simp
  qed
qed

lemma lineage_step_quarantined:
  assumes "lineage_step L detect P E doc content normalized metadata w = (Inr v, w')"
    and "status v = ''quarantined''"
  shows "bundle_path v = Some (mk_bundle_path (quarantine_manager P) (q_ts E) doc) \<and>
         (\<exists>stored. files (qfs w') (os_path_join (mk_bundle_path (quarantine_manager P) (q_ts E) doc) ''reason.txt'')
             = Some (Text stored) \<and>
           (reason v = ''Semantic anomaly.'' \<and> stored = ''Semantic anomaly detected.'' \<or>
            (reason v = ''Content hash mismatch.'' \<or> reason v = ''Invalid signature.'') \<and>
              stored = ''Lineage/Integrity failed: '' @ reason v))"
proof (cases normalized)
  case None
  with assms(1) have "semantic_step L detect P E doc content normalized metadata w = (Inr v, w')"
    by (simp add: lineage_step_def)
  from semantic_step_quarantined[OF this assms(2)] show ?thesis by simp
next
  case (Some r)
  show ?thesis
  proof (cases "verify_record L (lineage_verifier P) r content")
    case (Inl e)
    with Some assms(1) show ?thesis by (simp add: lineage_step_def)
  next
    case (Inr res)
    obtain okv rsn where res: "res = (okv, rsn)" by (cases res)
    show ?thesis
    proof (cases okv)
      case False
      with Some Inr res assms(1) have q: "quarantine_exit L P E doc content
                 ''lineage_fail'' ''lineage'' rsn
                 (PDict [(''lineage_record'', record_dict r)])
                 (''Lineage/Integrity failed: '' @ rsn)
                 (record_dict r) PNone
                 (py_or metadata (PDict [(''stage'', PStr ''lineage'')]))
                 rsn PNone w = (Inr v, w')"
        by (simp add: lineage_step_def)
      from Inr res False have "verify_record L (lineage_verifier P) r content = Inr (False, rsn)"
        by simp
      then have "rsn = ''Content hash mismatch.'' \<or> rsn = ''Invalid signature.''"
        by (rule verify_record_reasons)
      with quarantine_exit_reason_file[OF q] show ?thesis by auto
    next
      case True
      show ?thesis
      proof (cases rule: audit_write_cases[of L E "''lineage_ok''" doc "''lineage''" "''accepted''"
          "''Lineage valid''" "PDict [(''version'', version r)]" w])
        case (ok w1)
        with Some Inr res True assms(1)
        have s: "semantic_step L detect P E doc content normalized metadata w1 = (Inr v, w')"
          by (simp add: lineage_step_def)
        from semantic_step_quarantined[OF s assms(2)] show ?thesis by simp
      next
        case (fail w1)
        with Some Inr res True assms(1) show ?thesis by (simp add: lineage_step_def)
      qed
    qed
  qed
qed

lemma malformed_lineage_run:
  assumes "lineage \<noteq> LValue PNone" and "normalize_lineage_record lineage = None"
    and "audit_ok E (counter (audit w))" and "audit_ok E (counter (audit w) + 1)" and "q_ok E"
  shows "\<exists>w'. process_document L detect P E doc content lineage metadata w =
            (Inr \<lparr>status = ''quarantined'', reason = ''Invalid lineage record structure.'',
                  bundle_path = Some (mk_bundle_path (quarantine_manager P) (q_ts E) doc),
                  semantic_scores = PNone\<rparr>, w')"
proof -
  from audit_write_ok[OF assms(3), of L "''ingest_start''" doc "''start''" "''processing''"
      "''Document ingest started''" "PDict [(''metadata'', py_or metadata (PDict []))]"]
  obtain w1 where w1: "audit_write L E ''ingest_start'' doc ''start'' ''processing''
      ''Document ingest started'' (PDict [(''metadata'', py_or metadata (PDict []))]) w = (Inr (), w1)"
    "counter (audit w1) = counter (audit w) + 1" by blast
  from assms(4) w1(2) have "audit_ok E (counter (audit w1))" by simp
  from quarantine_exit_ok[OF this assms(5)] w1(1) assms(1,2) show ?thesis
    by (simp add: process_document_def Let_def)
qed

lemma quarantine_save_verifier:
  "quarantine_save (P\<lparr>lineage_verifier := V'\<rparr>) E doc content rsn lineage scores metadata w =
   quarantine_save P E doc content rsn lineage scores metadata w"
  by (simp add: quarantine_save_def)

lemma quarantine_exit_verifier:
  "quarantine_exit L (P\<lparr>lineage_verifier := V'\<rparr>) E doc content ev stg arsn det brsn lineage scores
     metadata vrsn vsc w =
   quarantine_exit L P E doc content ev stg arsn det brsn lineage scores metadata vrsn vsc w"
  unfolding quarantine_exit_def quarantine_save_verifier by (rule refl)

lemma malformed_lineage_independent:
  assumes "lineage \<noteq> LValue PNone" and "normalize_lineage_record lineage = None"
  shows "process_document L detect' (P\<lparr>lineage_verifier := V'\<rparr>) E doc content lineage metadata w =
         process_document L detect P E doc content lineage metadata w"
  using assms
  by (auto simp add: process_document_def Let_def quarantine_exit_verifier
      split: prod.splits sum.splits)

text \<open>
  Claim C9. Two runs of \<^verbatim>\<open>process_document\<close> on the same document id, content,
  lineage input and metadata, in any two surroundings (clock, audit log state, quarantine
  store, library, signer), that both return and in which the scorer gives the same result
  on the content and the verifier the same result on the normalized record, return the
  same status, reason and scores, both with or both without a bundle path, and write the
  same sequence of (event type, stage) audit events.
\<close>

theorem pipeline_determinism:
  assumes "process_document L1 detect1 P1 E1 doc content lineage metadata w1 = (Inr v1, w1')"
    and "process_document L2 detect2 P2 E2 doc content lineage metadata w2 = (Inr v2, w2')"
    and "detect1 content = detect2 content"
    and "\<forall>r. normalize_lineage_record lineage = Some r \<longrightarrow>
           verify_record L1 (lineage_verifier P1) r content =
           verify_record L2 (lineage_verifier P2) r content"
  shows "status v1 = status v2 \<and> reason v1 = reason v2 \<and>
         semantic_scores v1 = semantic_scores v2 \<and>
         (bundle_path v1 = None \<longleftrightarrow> bundle_path v2 = None) \<and>
         stages (new_entries w1 w1') = stages (new_entries w2 w2')"
proof -
  have "map_option (\<lambda>r. verify_record L1 (lineage_verifier P1) r content)
          (normalize_lineage_record lineage) =
        map_option (\<lambda>r. verify_record L2 (lineage_verifier P2) r content)
          (normalize_lineage_record lineage)"
    using assms(4) by (cases "normalize_lineage_record lineage") simp_all
  with process_document_summary[OF assms(1)] process_document_summary[OF assms(2)] assms(3)
  have "summary_of v1 (new_entries w1 w1') = summary_of v2 (new_entries w2 w2')"
    by (metis sum.inject(2))
  then show ?thesis by (auto simp add: summary_of_def)
qed

theorem pipeline_determinism_witness:
  "process_document demo_lib demo_detect demo_pipeline demo_env ''doc-lineage-attack'' ''text''
     demo_tampered PNone demo_world =
     (Inr \<lparr>status = ''quarantined'', reason = ''Content hash mismatch.'',
           bundle_path = Some ''data/quarantine/20250101T000000Z_doc-lineage-attack'',
           semantic_scores = PNone\<rparr>,
      snd (process_document demo_lib demo_detect demo_pipeline demo_env ''doc-lineage-attack''
             ''text'' demo_tampered PNone demo_world)) \<and>
   process_document demo_lib demo_detect demo_pipeline_other_key demo_env_later
     ''doc-lineage-attack'' ''text'' demo_tampered PNone demo_world_used =
     (Inr \<lparr>status = ''quarantined'', reason = ''Content hash mismatch.'',
           bundle_path = Some ''data/quarantine/20250630T120000Z_doc-lineage-attack'',
           semantic_scores = PNone\<rparr>,
      snd (process_document demo_lib demo_detect demo_pipeline_other_key demo_env_later
             ''doc-lineage-attack'' ''text'' demo_tampered PNone demo_world_used)) \<and>
   stages (new_entries demo_world
      (snd (process_document demo_lib demo_detect demo_pipeline demo_env ''doc-lineage-attack''
             ''text'' demo_tampered PNone demo_world))) =
   stages (new_entries demo_world_used
      (snd (process_document demo_lib demo_detect demo_pipeline_other_key demo_env_later
             ''doc-lineage-attack'' ''text'' demo_tampered PNone demo_world_used)))"
proof -
  let ?runA = "process_document demo_lib demo_detect demo_pipeline demo_env ''doc-lineage-attack''
                ''text'' demo_tampered PNone demo_world"
  let ?runB = "process_document demo_lib demo_detect demo_pipeline_other_key demo_env_later
                ''doc-lineage-attack'' ''text'' demo_tampered PNone demo_world_used"
  let ?vA = "\<lparr>status = ''quarantined'', reason = ''Content hash mismatch.'',
           bundle_path = Some ''data/quarantine/20250101T000000Z_doc-lineage-attack'',
           semantic_scores = PNone\<rparr>"
  let ?vB = "\<lparr>status = ''quarantined'', reason = ''Content hash mismatch.'',
           bundle_path = Some ''data/quarantine/20250630T120000Z_doc-lineage-attack'',
           semantic_scores = PNone\<rparr>"
  have "fst ?runA = Inr ?vA" by (simp add: eval_defs demo_defs)
  then have a: "?runA = (Inr ?vA, snd ?runA)" by (metis prod.collapse)
  have "fst ?runB = Inr ?vB" by (simp add: eval_defs demo_defs)
  then have b: "?runB = (Inr ?vB, snd ?runB)" by (metis prod.collapse)
  have d: "demo_detect ''text'' = demo_detect ''text''" by simp
  have v: "\<forall>r. normalize_lineage_record demo_tampered = Some r \<longrightarrow>
             verify_record demo_lib (lineage_verifier demo_pipeline) r ''text'' =
             verify_record demo_lib (lineage_verifier demo_pipeline_other_key) r ''text''"
    by (simp add: eval_defs demo_defs)
  from pipeline_determinism[OF a b d v] a b show ?thesis by blast
qed

text \<open>
  Claim C5 does not hold as stated: at each of the three quarantine terminals the reason
  passed to the quarantine store is another string than the reason of the verdict. Here
  the lineage input is a string; the verdict says
  \<^verbatim>\<open>Invalid lineage record structure.\<close> and \<^verbatim>\<open>reason.txt\<close> says
  \<^verbatim>\<open>Lineage record deserialization failure.\<close>
\<close>

theorem bundle_reason_differs_from_verdict_reason:
  "fst (process_document demo_lib demo_detect demo_pipeline demo_env ''doc-bad'' ''text''
          (LValue (PStr ''not a record'')) PNone demo_world) =
     Inr \<lparr>status = ''quarantined'', reason = ''Invalid lineage record structure.'',
          bundle_path = Some ''data/quarantine/20250101T000000Z_doc-bad'', semantic_scores = PNone\<rparr> \<and>
   files (qfs (snd (process_document demo_lib demo_detect demo_pipeline demo_env ''doc-bad'' ''text''
          (LValue (PStr ''not a record'')) PNone demo_world)))
      ''data/quarantine/20250101T000000Z_doc-bad/reason.txt'' =
     Some (Text ''Lineage record deserialization failure.'')"
  by (simp add: eval_defs demo_defs)

text \<open>
  Claim C5 as amended. For every run that ends in status \<^verbatim>\<open>quarantined\<close>, the
  bundle path of the verdict is the path of the bundle saved by that run, and the reason
  stored in that bundle is the counterpart of the verdict's reason at that terminal:
  \<^verbatim>\<open>Lineage record deserialization failure.\<close> for
  \<^verbatim>\<open>Invalid lineage record structure.\<close>, \<^verbatim>\<open>Semantic anomaly detected.\<close> for
  \<^verbatim>\<open>Semantic anomaly.\<close>, and the verifier's reason prefixed with
  \<^verbatim>\<open>Lineage/Integrity failed: \<close> for a lineage verification failure.
\<close>

theorem quarantine_bundle_reason:
  assumes "process_document L detect P E doc content lineage metadata w = (Inr v, w')"
    and "status v = ''quarantined''"
  shows "bundle_path v = Some (mk_bundle_path (quarantine_manager P) (q_ts E) doc) \<and>
         (\<exists>stored. files (qfs w') (os_path_join (mk_bundle_path (quarantine_manager P) (q_ts E) doc) ''reason.txt'')
             = Some (Text stored) \<and>
           (reason v = ''Invalid lineage record structure.'' \<and>
              stored = ''Lineage record deserialization failure.'' \<or>
            reason v = ''Semantic anomaly.'' \<and> stored = ''Semantic anomaly detected.'' \<or>
            (reason v = ''Content hash mismatch.'' \<or> reason v = ''Invalid signature.'') \<and>
              stored = ''Lineage/Integrity failed: '' @ reason v))"
proof (cases rule: audit_write_cases[of L E "''ingest_start''" doc "''start''" "''processing''"
      "''Document ingest started''" "PDict [(''metadata'', py_or metadata (PDict []))]" w])
  case (fail w1)
  with assms show ?thesis by (simp add: process_document_def)
next
  case (ok w1)
  show ?thesis
  proof (cases "lineage \<noteq> LValue PNone \<and> normalize_lineage_record lineage = None")
    case True
    with ok assms have q: "quarantine_exit L P E doc content
                  ''lineage_fail'' ''lineage_deserialization'' ''Invalid lineage structure''
                  (PDict [(''raw_lineage'', raw_lineage lineage)])
                  ''Lineage record deserialization failure.''
                  (raw_lineage lineage) PNone
                  (py_or metadata (PDict [(''stage'', PStr ''lineage_deserialization'')]))
                  ''Invalid lineage record structure.'' PNone w1 = (Inr v, w')"
      by (simp add: process_document_def Let_def)
    from quarantine_exit_reason_file[OF q] show ?thesis by simp
  next
    case False
    with ok assms have s: "lineage_step L detect P E doc content
        (normalize_lineage_record lineage) metadata w1 = (Inr v, w')"
      by (auto simp add: process_document_def Let_def)
    from lineage_step_quarantined[OF s assms(2)] show ?thesis by auto
  qed
qed

theorem quarantine_bundle_reason_witness:
  "process_document demo_lib demo_detect demo_pipeline demo_env ''doc-lineage-attack'' ''text''
     demo_tampered PNone demo_world =
     (Inr \<lparr>status = ''quarantined'', reason = ''Content hash mismatch.'',
           bundle_path = Some ''data/quarantine/20250101T000000Z_doc-lineage-attack'',
           semantic_scores = PNone\<rparr>,
      snd (process_document demo_lib demo_detect demo_pipeline demo_env ''doc-lineage-attack''
             ''text'' demo_tampered PNone demo_world)) \<and>
   files (qfs (snd (process_document demo_lib demo_detect demo_pipeline demo_env
                      ''doc-lineage-attack'' ''text'' demo_tampered PNone demo_world)))
     ''data/quarantine/20250101T000000Z_doc-lineage-attack/reason.txt'' =
     Some (Text ''Lineage/Integrity failed: Content hash mismatch.'')"
proof -
  let ?run = "process_document demo_lib demo_detect demo_pipeline demo_env ''doc-lineage-attack''
                ''text'' demo_tampered PNone demo_world"
  let ?v = "\<lparr>status = ''quarantined'', reason = ''Content hash mismatch.'',
           bundle_path = Some ''data/quarantine/20250101T000000Z_doc-lineage-attack'',
           semantic_scores = PNone\<rparr>"
  have "fst ?run = Inr ?v" by (simp add: eval_defs demo_defs)
  then have r: "?run = (Inr ?v, snd ?run)" by (metis prod.collapse)
  have s: "status ?v = ''quarantined''" by simp
  have p: "os_path_join (mk_bundle_path (quarantine_manager demo_pipeline) (q_ts demo_env)
              ''doc-lineage-attack'') ''reason.txt'' =
           ''data/quarantine/20250101T000000Z_doc-lineage-attack/reason.txt''"
    by (simp add: mk_bundle_path_def os_path_join_def safe_id_def demo_pipeline_def demo_env_def)
  from quarantine_bundle_reason[OF r s]
  have "files (qfs (snd ?run))
     ''data/quarantine/20250101T000000Z_doc-lineage-attack/reason.txt'' =
     Some (Text ''Lineage/Integrity failed: Content hash mismatch.'')"
    unfolding p by auto
  with r show ?thesis by blast
qed

text \<open>
  Claim C6 does not hold as stated: the event that records the deserialization failure
  has the event type \<^verbatim>\<open>lineage_fail\<close>, so the audit sequence of such a run does
  contain a \<^verbatim>\<open>lineage_fail\<close> event. Here the lineage input is a dictionary with one
  field.
\<close>

theorem deserialization_failure_is_logged_as_lineage_fail:
  "map (\<lambda>l. line_field l ''event_type'')
     (logfile (snd (process_document demo_lib demo_detect demo_pipeline demo_env ''doc-bad'' ''text''
          (LValue (PDict [(''document_id'', PStr ''doc-bad'')])) PNone demo_world))) =
   [Some (PStr ''ingest_start''), Some (PStr ''lineage_fail'')]"
  by (simp add: eval_defs demo_defs)

text \<open>
  Claim C6 as amended. When a lineage input is supplied and cannot be normalized, and
  the two audit appends and the bundle are stored, \<^verbatim>\<open>process_document\<close> returns status
  \<^verbatim>\<open>quarantined\<close> with reason \<^verbatim>\<open>Invalid lineage record structure.\<close>, a bundle path
  and no scores; the run writes exactly two audit events, \<^verbatim>\<open>ingest_start\<close> at stage
  \<^verbatim>\<open>start\<close> and \<^verbatim>\<open>lineage_fail\<close> at stage \<^verbatim>\<open>lineage_deserialization\<close>, so no
  \<^verbatim>\<open>lineage_ok\<close> event and no event of the verifier's stage \<^verbatim>\<open>lineage\<close>; and the
  whole outcome is the same for every scorer and every verifier, neither being called.
\<close>

theorem malformed_lineage_quarantined_at_normalize:
  assumes "lineage \<noteq> LValue PNone" and "normalize_lineage_record lineage = None"
    and "audit_ok E (counter (audit w))" and "audit_ok E (counter (audit w) + 1)" and "q_ok E"
  shows "\<exists>w'. process_document L detect P E doc content lineage metadata w =
            (Inr \<lparr>status = ''quarantined'', reason = ''Invalid lineage record structure.'',
                  bundle_path = Some (mk_bundle_path (quarantine_manager P) (q_ts E) doc),
                  semantic_scores = PNone\<rparr>, w') \<and>
          stages (new_entries w w') =
            [(Some (PStr ''ingest_start''), Some (PStr ''start'')),
             (Some (PStr ''lineage_fail''), Some (PStr ''lineage_deserialization''))] \<and>
          (\<forall>detect' V'. process_document L detect' (P\<lparr>lineage_verifier := V'\<rparr>) E doc content
                            lineage metadata w =
                         process_document L detect P E doc content lineage metadata w)"
proof -
  from malformed_lineage_run[OF assms, of L detect P doc content metadata]
  obtain w' where r: "process_document L detect P E doc content lineage metadata w =
            (Inr \<lparr>status = ''quarantined'', reason = ''Invalid lineage record structure.'',
                  bundle_path = Some (mk_bundle_path (quarantine_manager P) (q_ts E) doc),
                  semantic_scores = PNone\<rparr>, w')" by blast
  from process_document_summary[OF r] assms(1,2)
  have "stages (new_entries w w') =
            [(Some (PStr ''ingest_start''), Some (PStr ''start'')),
             (Some (PStr ''lineage_fail''), Some (PStr ''lineage_deserialization''))]"
    by (simp add: expected_summary_def summary_of_def ev_stage_def)
  with r malformed_lineage_independent[OF assms(1,2)] show ?thesis by blast
qed

theorem malformed_lineage_quarantined_at_normalize_witness:
  "demo_malformed \<noteq> LValue PNone \<and> normalize_lineage_record demo_malformed = None \<and>
   audit_ok demo_env (counter (audit demo_world)) \<and>
   audit_ok demo_env (counter (audit demo_world) + 1) \<and> q_ok demo_env \<and>
   (\<exists>w'. process_document demo_lib demo_detect demo_pipeline demo_env ''doc-bad'' ''text''
            demo_malformed PNone demo_world =
            (Inr \<lparr>status = ''quarantined'', reason = ''Invalid lineage record structure.'',
                  bundle_path = Some ''data/quarantine/20250101T000000Z_doc-bad'',
                  semantic_scores = PNone\<rparr>, w') \<and>
          stages (new_entries demo_world w') =
            [(Some (PStr ''ingest_start''), Some (PStr ''start'')),
             (Some (PStr ''lineage_fail''), Some (PStr ''lineage_deserialization''))])"
proof -
  have h: "demo_malformed \<noteq> LValue PNone" "normalize_lineage_record demo_malformed = None"
    "audit_ok demo_env (counter (audit demo_world))"
    "audit_ok demo_env (counter (audit demo_world) + 1)" "q_ok demo_env"
    by (simp_all add: demo_malformed_def demo_env_def normalize_lineage_record_def
        LineageRecord_init_def required_fields_def lineage_fields_def)
  have p: "mk_bundle_path (quarantine_manager demo_pipeline) (q_ts demo_env) ''doc-bad'' =
           ''data/quarantine/20250101T000000Z_doc-bad''"
    by (simp add: mk_bundle_path_def os_path_join_def safe_id_def demo_pipeline_def demo_env_def)
  from malformed_lineage_quarantined_at_normalize[OF h, of demo_lib demo_detect demo_pipeline
      "''doc-bad''" "''text''" PNone] h
  show ?thesis unfolding p by blast
qed

text \<open>
  Claim C10. Normalization looks at field names only. A \<^verbatim>\<open>LineageRecord\<close> passes
  through unchanged. A dictionary whose keys are among the eight constructor parameters
  and include the seven without default becomes a record holding the values as they are,
  whatever their types (\<^verbatim>\<open>signature\<close> defaults to \<^verbatim>\<open>None\<close>). A dictionary with a
  missing required key or an unknown key, and every value that is not a dictionary, is
  not normalized; and an input other than \<^verbatim>\<open>None\<close> that is not normalized is
  quarantined (when the audit appends and the bundle are stored).
\<close>

theorem normalize_checks_field_names_only:
  "normalize_lineage_record (LRecord r) = Some r \<and>
   (set (map fst kvs) \<subseteq> {''document_id'', ''version'', ''content_hash'', ''prev_hash'',
        ''created_at'', ''author'', ''source'', ''signature''} \<and>
    {''document_id'', ''version'', ''content_hash'', ''prev_hash'', ''created_at'', ''author'',
        ''source''} \<subseteq> set (map fst kvs)
    \<longrightarrow> normalize_lineage_record (LValue (PDict kvs)) =
          Some \<lparr>document_id = kwarg kvs ''document_id'', version = kwarg kvs ''version'',
                content_hash = kwarg kvs ''content_hash'', prev_hash = kwarg kvs ''prev_hash'',
                created_at = kwarg kvs ''created_at'', author = kwarg kvs ''author'',
                source = kwarg kvs ''source'', signature = kwarg kvs ''signature''\<rparr>) \<and>
   (\<not> (set (map fst kvs) \<subseteq> {''document_id'', ''version'', ''content_hash'', ''prev_hash'',
        ''created_at'', ''author'', ''source'', ''signature''} \<and>
       {''document_id'', ''version'', ''content_hash'', ''prev_hash'', ''created_at'', ''author'',
        ''source''} \<subseteq> set (map fst kvs))
    \<longrightarrow> normalize_lineage_record (LValue (PDict kvs)) = None) \<and>
   ((\<forall>d. v \<noteq> PDict d) \<longrightarrow> normalize_lineage_record (LValue v) = None) \<and>
   (lineage \<noteq> LValue PNone \<and> normalize_lineage_record lineage = None \<and>
    audit_ok E (counter (audit w)) \<and> audit_ok E (counter (audit w) + 1) \<and> q_ok E
    \<longrightarrow> (\<exists>vd w'. process_document L detect P E doc content lineage metadata w = (Inr vd, w') \<and>
           status vd = ''quarantined''))"
proof -
  define C where "C \<longleftrightarrow> set (map fst kvs) \<subseteq> {''document_id'', ''version'', ''content_hash'',
        ''prev_hash'', ''created_at'', ''author'', ''source'', ''signature''} \<and>
    {''document_id'', ''version'', ''content_hash'', ''prev_hash'', ''created_at'', ''author'',
        ''source''} \<subseteq> set (map fst kvs)"
  have shape: "(list_all (\<lambda>k. k \<in> set lineage_fields) (map fst kvs) \<and>
         list_all (\<lambda>k. k \<in> set (map fst kvs)) required_fields) = C"
    unfolding lineage_fields_def required_fields_def list_all_iff C_def by auto
  have a: "normalize_lineage_record (LRecord r) = Some r"
    by (simp add: normalize_lineage_record_def)
  have init: "LineageRecord_init kvs =
      (if C then Inr \<lparr>document_id = kwarg kvs ''document_id'', version = kwarg kvs ''version'',
                content_hash = kwarg kvs ''content_hash'', prev_hash = kwarg kvs ''prev_hash'',
                created_at = kwarg kvs ''created_at'', author = kwarg kvs ''author'',
                source = kwarg kvs ''source'', signature = kwarg kvs ''signature''\<rparr>
       else Inl TypeError)"
    by (simp only: LineageRecord_init_def shape)
  have b: "normalize_lineage_record (LValue (PDict kvs)) =
      (if C
       then Some \<lparr>document_id = kwarg kvs ''document_id'', version = kwarg kvs ''version'',
                content_hash = kwarg kvs ''content_hash'', prev_hash = kwarg kvs ''prev_hash'',
                created_at = kwarg kvs ''created_at'', author = kwarg kvs ''author'',
                source = kwarg kvs ''source'', signature = kwarg kvs ''signature''\<rparr>
       else None)"
    by (simp add: normalize_lineage_record_def init)
  have c: "normalize_lineage_record (LValue v) = None" if "\<forall>d. v \<noteq> PDict d"
    using that by (cases v) (simp_all add: normalize_lineage_record_def)
  have d: "\<exists>vd w'. process_document L detect P E doc content lineage metadata w = (Inr vd, w') \<and>
           status vd = ''quarantined''"
    if "lineage \<noteq> LValue PNone" "normalize_lineage_record lineage = None"
       "audit_ok E (counter (audit w))" "audit_ok E (counter (audit w) + 1)" "q_ok E"
    using malformed_lineage_run[OF that, of L detect P doc content metadata] by auto
  from a b c d show ?thesis unfolding C_def[symmetric] by (cases C) auto
qed

theorem normalize_checks_field_names_only_witness:
  "normalize_lineage_record (LRecord (create_lineage_record demo_lib ''2025-01-01T00:00:00''
       ''doc-1'' ''text'' ''security-team'' ''confluence'' None 1)) =
     Some (create_lineage_record demo_lib ''2025-01-01T00:00:00''
       ''doc-1'' ''text'' ''security-team'' ''confluence'' None 1) \<and>
   normalize_lineage_record (LValue (PDict demo_untyped)) =
     Some \<lparr>document_id = PInt 7, version = PStr ''two'', content_hash = PList [],
           prev_hash = PNone, created_at = PBool True, author = PStr ''a'',
           source = PStr ''s'', signature = PNone\<rparr> \<and>
   normalize_lineage_record (LValue (PDict [(''document_id'', PStr ''doc-bad'')])) = None \<and>
   normalize_lineage_record (LValue (PStr ''not a record'')) = None \<and>
   (\<exists>vd w'. process_document demo_lib demo_detect demo_pipeline demo_env ''doc-bad'' ''text''
              (LValue (PList [])) PNone demo_world = (Inr vd, w') \<and>
            status vd = ''quarantined'')"
proof -
  have n: "normalize_lineage_record (LValue (PList [])) = None"
    by (simp add: normalize_lineage_record_def)
  from normalize_checks_field_names_only[of
      "create_lineage_record demo_lib ''2025-01-01T00:00:00'' ''doc-1'' ''text'' ''security-team''
         ''confluence'' None 1"
      demo_untyped "PStr ''not a record''"
      "LValue (PList [])" demo_env demo_world demo_lib demo_detect demo_pipeline "''doc-bad''"
      "''text''" PNone]
    normalize_checks_field_names_only[of
      "create_lineage_record demo_lib ''2025-01-01T00:00:00'' ''doc-1'' ''text'' ''security-team''
         ''confluence'' None 1"
      "[(''document_id'', PStr ''doc-bad'')]"
      "PStr ''not a record''" "LValue (PList [])" demo_env demo_world demo_lib demo_detect
      demo_pipeline "''doc-bad''" "''text''" PNone] n
  show ?thesis
    by (simp add: demo_untyped_def kwarg_def demo_env_def)
qed

end
